theory Spec2Isabelle
  imports Main "HOL-Library.Word"
begin

unbundle bit_operations_syntax

section \<open>JavaScript values, buffers and errors\<close>

text \<open>
  The adapter is dynamically typed: \<open>batteryLevel\<close> starts as the string \<open>'Unknown'\<close> and
  later holds a number, \<open>flightStatus\<close> starts as \<open>null\<close> and later holds a string or
  \<open>undefined\<close>. The values the code handles are collected in one datatype. \<open>JF32\<close> is a
  number known by the IEEE-754 single-precision bit pattern that \<open>readFloatLE\<close> reads or
  \<open>writeFloatLE\<close> stores; \<open>JFun\<close> is any function or plain object value whose identity is
  of no interest (such a value is truthy and converts to the number \<open>NaN\<close>).
\<close>

type_synonym byte = "8 word"

datatype jsval =
    JUndefined
  | JNull
  | JBool bool
  | JNum int
  | JF32 "32 word"
  | JStr string
  | JBuffer "byte list"
  | JFun
  | JRec "(string \<times> jsval) list"

fun truthy :: "jsval \<Rightarrow> bool" where
  "truthy JUndefined = False"
| "truthy JNull = False"
| "truthy (JBool b) = b"
| "truthy (JNum n) = (n \<noteq> 0)"
| "truthy (JF32 w) = (w \<noteq> 0 \<and> w \<noteq> 0x80000000 \<and> \<not> (0x7F800000 < (w AND 0x7FFFFFFF)))"
| "truthy (JStr s) = (s \<noteq> [])"
| "truthy (JBuffer b) = True"
| "truthy JFun = True"
| "truthy (JRec kvs) = True"

text \<open>\<open>a && b\<close> and \<open>a || b\<close> on values already computed.\<close>

definition js_and :: "jsval \<Rightarrow> jsval \<Rightarrow> jsval" where
  "js_and a b = (if truthy a then b else a)"

definition js_or :: "jsval \<Rightarrow> jsval \<Rightarrow> jsval" where
  "js_or a b = (if truthy a then a else b)"

text \<open>
  The exceptions the modelled code can raise: the two checks of \<open>Buffer\<close>'s integer and
  float accessors, a method call on \<open>undefined\<close>, and a pattern \<open>RegExp\<close> rejects.
\<close>

datatype error =
    ValueOutOfBounds
  | IndexOutOfRange
  | UndefinedHasNoProperty
  | InvalidRegExp

definition bindE :: "error + 'a \<Rightarrow> ('a \<Rightarrow> error + 'b) \<Rightarrow> error + 'b" where
  "bindE r f = (case r of Inl e \<Rightarrow> Inl e | Inr x \<Rightarrow> f x)"

subsection \<open>Buffer accessors\<close>

text \<open>
  \<open>buf.writeInt16LE(value, offset)\<close>: the value must lie in the signed 16-bit range and
  both bytes must lie inside the buffer, else the call throws and the buffer is left as it
  was. The low byte goes to \<open>offset\<close>, the high byte to \<open>offset + 1\<close>.
\<close>

definition writeInt16LE :: "byte list \<Rightarrow> int \<Rightarrow> nat \<Rightarrow> error + byte list" where
  "writeInt16LE buf v off =
     (if v > 32767 \<or> v < - 32768 then Inl ValueOutOfBounds
      else if off + 2 > length buf then Inl IndexOutOfRange
      else Inr (buf[off := word_of_int v, off + 1 := word_of_int (v div 256)]))"

text \<open>The values \<open>writeInt16LE\<close> accepts.\<close>

definition int16 :: "int \<Rightarrow> bool" where
  "int16 v = (- 32768 \<le> v \<and> v \<le> 32767)"

text \<open>A run of \<open>writeInt16LE\<close> statements, in source order, stopping at the first throw.\<close>

fun writeInt16LEs :: "byte list \<Rightarrow> (int \<times> nat) list \<Rightarrow> error + byte list" where
  "writeInt16LEs buf [] = Inr buf"
| "writeInt16LEs buf ((v, off) # ws) = bindE (writeInt16LE buf v off) (\<lambda>b. writeInt16LEs b ws)"

text \<open>\<open>buf.writeFloatLE(value, offset)\<close>, the value given by its single-precision bits.\<close>

definition writeFloatLE :: "byte list \<Rightarrow> 32 word \<Rightarrow> nat \<Rightarrow> error + byte list" where
  "writeFloatLE buf w off =
     (if off + 4 > length buf then Inl IndexOutOfRange
      else Inr (buf[off := ucast w, off + 1 := ucast (drop_bit 8 w),
                    off + 2 := ucast (drop_bit 16 w), off + 3 := ucast (drop_bit 24 w)]))"

definition readUInt8 :: "byte list \<Rightarrow> nat \<Rightarrow> error + nat" where
  "readUInt8 buf off = (if off + 1 > length buf then Inl IndexOutOfRange else Inr (unat (buf ! off)))"

definition readUInt16LE :: "byte list \<Rightarrow> nat \<Rightarrow> error + nat" where
  "readUInt16LE buf off =
     (if off + 2 > length buf then Inl IndexOutOfRange
      else Inr (unat (buf ! off) + 256 * unat (buf ! (off + 1))))"

definition readFloatLE :: "byte list \<Rightarrow> nat \<Rightarrow> error + 32 word" where
  "readFloatLE buf off =
     (if off + 4 > length buf then Inl IndexOutOfRange
      else Inr (ucast (buf ! off) OR push_bit 8 (ucast (buf ! (off + 1)))
                OR push_bit 16 (ucast (buf ! (off + 2))) OR push_bit 24 (ucast (buf ! (off + 3)))))"

subsection \<open>Strings and arrays\<close>

text \<open>\<open>s.indexOf(p)\<close>: the first position at which \<open>p\<close> occurs in \<open>s\<close>, or \<open>-1\<close>.\<close>

fun indexOf_from :: "string \<Rightarrow> string \<Rightarrow> nat \<Rightarrow> int" where
  "indexOf_from [] p i = (if p = [] then int i else - 1)"
| "indexOf_from (c # cs) p i =
     (if take (length p) (c # cs) = p then int i else indexOf_from cs p (Suc i))"

definition indexOf :: "string \<Rightarrow> string \<Rightarrow> int" where
  "indexOf s p = indexOf_from s p 0"

text \<open>\<open>xs[i]\<close> on an array of strings: \<open>undefined\<close> past the end.\<close>

definition array_get :: "string list \<Rightarrow> nat \<Rightarrow> jsval" where
  "array_get xs i = (if i < length xs then JStr (xs ! i) else JUndefined)"

text \<open>
  \<open>xs.indexOf(v)\<close> on an array of strings compares with \<open>===\<close>: only a string value can
  be found, a \<open>Buffer\<close> holding the same characters or bytes is never equal to a string.
\<close>

fun array_indexOf_from :: "string list \<Rightarrow> jsval \<Rightarrow> nat \<Rightarrow> int" where
  "array_indexOf_from [] v i = - 1"
| "array_indexOf_from (x # xs) v i = (if v = JStr x then int i else array_indexOf_from xs v (Suc i))"

definition array_indexOf :: "string list \<Rightarrow> jsval \<Rightarrow> int" where
  "array_indexOf xs v = array_indexOf_from xs v 0"

text \<open>
  Every object literal inherits from \<open>Object.prototype\<close>; a lookup of one of these names
  on a plain object finds the inherited function (or, for \<open>__proto__\<close>, the prototype
  object) where the object has no property of its own under that name.
\<close>

definition object_prototype_names :: "string list" where
  "object_prototype_names =
     [''constructor'', ''__defineGetter__'', ''__defineSetter__'', ''hasOwnProperty'',
      ''__lookupGetter__'', ''__lookupSetter__'', ''isPrototypeOf'', ''propertyIsEnumerable'',
      ''toString'', ''valueOf'', ''__proto__'', ''toLocaleString'']"

text \<open>An array element stored into a \<open>Buffer\<close>: \<open>v & 255\<close>.\<close>

fun to_byte :: "jsval \<Rightarrow> byte" where
  "to_byte (JNum n) = word_of_int n"
| "to_byte (JBool b) = (if b then 1 else 0)"
| "to_byte v = 0"

section \<open>Protocol constants\<close>

definition PILOTING :: int where "PILOTING = 0x00"
definition SPEED_SETTINGS :: int where "SPEED_SETTINGS = 0x01"
definition ANIMATION :: int where "ANIMATION = 0x04"
definition MEDIA_RECORD :: int where "MEDIA_RECORD = 0x06"
definition PILOTING_SETTINGS :: int where "PILOTING_SETTINGS = 0x08"

definition TRIM :: int where "TRIM = 0x00"
definition TAKEOFF :: int where "TAKEOFF = 0x01"
definition LAND :: int where "LAND = 0x03"
definition EMERGENCY :: int where "EMERGENCY = 0x04"
definition PICTURE :: int where "PICTURE = 0x01"
definition FLIP :: int where "FLIP = 0x00"
definition MAX_ALTITUDE :: int where "MAX_ALTITUDE = 0x00"
definition MAX_TILT :: int where "MAX_TILT = 0x01"
definition MAX_VERTICAL_SPEED :: int where "MAX_VERTICAL_SPEED = 0x00"
definition MAX_ROTATION_SPEED :: int where "MAX_ROTATION_SPEED = 0x01"

definition MD_DATA_TYPES_DATA :: int where "MD_DATA_TYPES_DATA = 0x02"
definition MD_DEVICE_TYPE :: int where "MD_DEVICE_TYPE = 0x02"

text \<open>
  The \<open>animations\<close> table is an object literal, so \<open>animations[name]\<close> is its own entry,
  else what \<open>Object.prototype\<close> provides under that name, else \<open>undefined\<close>.
\<close>

definition animations :: "string \<Rightarrow> jsval" where
  "animations name =
     (if name = ''flipFront'' then JNum 0
      else if name = ''flipBack'' then JNum 1
      else if name = ''flipRight'' then JNum 2
      else if name = ''flipLeft'' then JNum 3
      else if name \<in> set object_prototype_names then JFun
      else JUndefined)"

definition pictureState :: "string list" where
  "pictureState = [''ready'', ''busy'', ''notAvailable'']"

definition pictureStateError :: "string list" where
  "pictureStateError = [''ok'', ''unknown'', ''cameraKO'', ''memoryFull'', ''lowBattery'']"

text \<open>The three outbound characteristics, each the key of one step counter.\<close>

datatype channel = FLIGHT_PARAMS_KEY | COMMAND_KEY | EMERGENCY_KEY

fun key_uuid :: "channel \<Rightarrow> string" where
  "key_uuid FLIGHT_PARAMS_KEY = ''fa0a''"
| "key_uuid COMMAND_KEY = ''fa0b''"
| "key_uuid EMERGENCY_KEY = ''fa0c''"

definition MANUFACTURER_SERIALS :: "string list" where
  "MANUFACTURER_SERIALS = [''4300cf1900090100'', ''4300cf1909090100'', ''4300cf1907090100'']"

definition DRONE_PREFIXES :: "string list" where
  "DRONE_PREFIXES = [''RS_'', ''Mars_'', ''Travis_'', ''Maclan_'', ''Mambo_'', ''Blaze_'', ''NewZ_'']"

definition FLIGHT_STATUSES :: "string list" where
  "FLIGHT_STATUSES = [''landed'', ''taking off'', ''hovering'', ''flying'',
                      ''landing'', ''emergency'', ''rolling'', ''initializing'']"

definition ALERT_STATE_CHANGED :: "string list" where
  "ALERT_STATE_CHANGED = [''none'', ''user'', ''cut_out'', ''critical_battery'', ''low_battery'']"

section \<open>The adapter's state and its effects\<close>

record flight_params =
  roll :: int
  pitch :: int
  yaw :: int
  altitude :: int

definition fp_object :: "flight_params \<Rightarrow> jsval" where
  "fp_object p = JRec [(''roll'', JNum (roll p)), (''pitch'', JNum (pitch p)),
                       (''yaw'', JNum (yaw p)), (''altitude'', JNum (altitude p))]"

text \<open>
  What \<open>validatePeripheral\<close> reads of a discovered peripheral: the advertised name, a
  string or absent, and the manufacturer data, which the BLE stack hands over as a
  \<open>Buffer\<close> or leaves \<open>undefined\<close>.
\<close>

record advertisement =
  localName :: "string option"
  manufacturerData :: jsval

text \<open>
  The fields the constructor sets. A characteristic is known by its UUID, a peripheral by
  its advertisement; the BLE stack's own object \<open>noble\<close> stays outside the model.
\<close>

record adapter =
  droneFilter :: string
  connected :: bool
  peripheral :: "advertisement option"
  characteristics :: "string list"
  batteryLevel :: jsval
  steps :: "channel \<Rightarrow> int"
  flightStatus :: jsval
  alertStatus :: jsval
  flightParams :: flight_params

definition new_adapter :: "string \<Rightarrow> adapter" where
  "new_adapter filter_opt =
     \<lparr> droneFilter = filter_opt, connected = False, peripheral = None, characteristics = [],
       batteryLevel = JStr ''Unknown'', steps = (\<lambda>k. 0), flightStatus = JNull,
       alertStatus = JNum 0,
       flightParams = \<lparr> roll = 0, pitch = 0, yaw = 0, altitude = 0 \<rparr> \<rparr>"

text \<open>
  What a call leaves behind, in order: a buffer written to a characteristic, an event
  emitted to the subscribers, a line handed to the logger (its fixed text and the values
  interpolated into it).
\<close>

datatype level = Debug | Info | Warn

datatype effect =
    Write string "byte list"
  | Emit string jsval
  | Log level string "jsval list"

text \<open>
  A call returns the adapter as it left it, its effects, and the exception it threw, if
  any. Whatever was assigned before a throw stays assigned.
\<close>

type_synonym outcome = "adapter \<times> effect list \<times> error option"

abbreviation state_of :: "'s \<times> effect list \<times> error option \<Rightarrow> 's" where
  "state_of r \<equiv> fst r"

abbreviation effects_of :: "'s \<times> effect list \<times> error option \<Rightarrow> effect list" where
  "effects_of r \<equiv> fst (snd r)"

abbreviation thrown_of :: "'s \<times> effect list \<times> error option \<Rightarrow> error option" where
  "thrown_of r \<equiv> snd (snd r)"

definition and_then :: "outcome \<Rightarrow> (adapter \<Rightarrow> outcome) \<Rightarrow> outcome" where
  "and_then r f =
     (case r of
        (a, es, Some e) \<Rightarrow> (a, es, Some e)
      | (a, es, None) \<Rightarrow> (case f a of (a', es', r') \<Rightarrow> (a', es @ es', r')))"

definition done_with :: "effect list \<Rightarrow> adapter \<Rightarrow> outcome" where
  "done_with es a = (a, es, None)"

section \<open>Writing to the drone\<close>

text \<open>
  \<open>write\<close> of the source is \<open>write'\<close> here. \<open>getCharacteristic\<close> is taken as \<open>write\<close>
  reaches it, that is with a non-empty list: the first characteristic whose UUID the key
  occurs in (the keys are plain hexadecimal digits, so the regular-expression search is a
  substring search), \<open>undefined\<close> when there is none.
\<close>

definition getCharacteristic :: "adapter \<Rightarrow> channel \<Rightarrow> string option" where
  "getCharacteristic a uuid = List.find (\<lambda>c. indexOf c (key_uuid uuid) \<noteq> - 1) (characteristics a)"

definition write' :: "channel \<Rightarrow> byte list \<Rightarrow> adapter \<Rightarrow> outcome" where
  "write' uuid buffer a =
     (if characteristics a = [] then
        (a, [Log Warn ''You must have bluetooth enabled and be connected to a drone before executing a command.'' []], None)
      else
        let a' = (if steps a uuid \<ge> 255 then a\<lparr>steps := (steps a)(uuid := 0)\<rparr> else a) in
        case getCharacteristic a' uuid of
          None \<Rightarrow> (a', [], Some UndefinedHasNoProperty)
        | Some c \<Rightarrow> (a', [Write c buffer], None))"

text \<open>
  \<open>createBuffer\<close> pre-increments the counter of \<open>uuid\<close> and puts the new value, masked to
  a byte, second in the buffer.
\<close>

definition createBuffer :: "channel \<Rightarrow> jsval list \<Rightarrow> adapter \<Rightarrow> adapter \<times> byte list" where
  "createBuffer uuid args a =
     (let a' = a\<lparr>steps := (steps a)(uuid := steps a uuid + 1)\<rparr> in
      (a', map to_byte ([JNum MD_DATA_TYPES_DATA, JNum (steps a' uuid AND 0xFF), JNum MD_DEVICE_TYPE] @ args)))"

definition new_buffer :: "nat \<Rightarrow> byte list" where
  "new_buffer n = replicate n 0"

text \<open>
  The buffer of \<open>writeFlightParams\<close>: eleven 16-bit writes at consecutive offsets, each
  overwriting the high byte of the one before, then a zero float at offset 11.
\<close>

definition flightParamsBuffer :: "int \<Rightarrow> flight_params \<Rightarrow> error + byte list" where
  "flightParamsBuffer step p =
     bindE (writeInt16LEs (new_buffer 19)
              [(2, 0), (step, 1), (2, 2), (0, 3), (2, 4), (0, 5), (1, 6),
               (roll p, 7), (pitch p, 8), (yaw p, 9), (altitude p, 10)])
       (\<lambda>b. writeFloatLE b 0 11)"

definition writeFlightParams :: "flight_params \<Rightarrow> adapter \<Rightarrow> outcome" where
  "writeFlightParams p a =
     (let a1 = a\<lparr>flightParams := p\<rparr>;
          a2 = a1\<lparr>steps := (steps a1)(FLIGHT_PARAMS_KEY := steps a1 FLIGHT_PARAMS_KEY + 1)\<rparr>
      in case flightParamsBuffer (steps a2 FLIGHT_PARAMS_KEY) (flightParams a2) of
           Inl e \<Rightarrow> (a2, [], Some e)
         | Inr buffer \<Rightarrow>
             and_then (write' FLIGHT_PARAMS_KEY buffer a2)
               (\<lambda>a3. done_with [Emit ''flightParamChange'' (fp_object (flightParams a3))] a3))"

definition writeTrim :: "adapter \<Rightarrow> outcome" where
  "writeTrim a =
     (case createBuffer COMMAND_KEY [JNum PILOTING, JNum TRIM, JNum 0] a of
        (a1, buffer) \<Rightarrow>
          and_then (write' COMMAND_KEY buffer a1) (done_with [Log Info ''Trim command called'' []]))"

definition writeTakeoff :: "adapter \<Rightarrow> outcome" where
  "writeTakeoff a =
     (case createBuffer COMMAND_KEY [JNum PILOTING, JNum TAKEOFF, JNum 0] a of
        (a1, buffer) \<Rightarrow>
          and_then (write' COMMAND_KEY buffer a1) (done_with [Log Info ''Takeoff command called'' []]))"

definition writeLand :: "adapter \<Rightarrow> outcome" where
  "writeLand a =
     (case createBuffer COMMAND_KEY [JNum PILOTING, JNum LAND, JNum 0] a of
        (a1, buffer) \<Rightarrow>
          and_then (write' COMMAND_KEY buffer a1) (done_with [Log Info ''Land command called'' []]))"

definition writeEmergency :: "adapter \<Rightarrow> outcome" where
  "writeEmergency a =
     (case createBuffer EMERGENCY_KEY [JNum PILOTING, JNum EMERGENCY, JNum 0] a of
        (a1, buffer) \<Rightarrow>
          and_then (write' EMERGENCY_KEY buffer a1) (done_with [Log Info ''Emergency command called'' []]))"

definition writeTakePicture :: "adapter \<Rightarrow> outcome" where
  "writeTakePicture a =
     (case createBuffer COMMAND_KEY [JNum MEDIA_RECORD, JNum PICTURE, JNum 0] a of
        (a1, buffer) \<Rightarrow>
          and_then (write' COMMAND_KEY buffer a1) (done_with [Log Info ''Take picture command called'' []]))"

definition writeAnimation :: "string \<Rightarrow> adapter \<Rightarrow> outcome" where
  "writeAnimation animation a =
     (if animations animation = JUndefined then (a, [], None)
      else
        case createBuffer COMMAND_KEY
               [JNum ANIMATION, JNum FLIP, JNum 0, animations animation, JNum 0, JNum 0, JNum 0] a of
          (a1, buffer) \<Rightarrow>
            and_then (write' COMMAND_KEY buffer a1)
              (done_with [Log Info ''Animation command called with ${animation} argument'' [JStr animation]]))"

text \<open>
  The four limit writers share one shape: the 19-byte buffer carries the pre-incremented
  counter of \<open>FLIGHT_PARAMS_KEY\<close>, and the buffer goes out through \<open>COMMAND_KEY\<close>.
\<close>

definition limitBuffer :: "int \<Rightarrow> int \<Rightarrow> int \<Rightarrow> 32 word \<Rightarrow> error + byte list" where
  "limitBuffer step cls method v =
     bindE (writeInt16LEs (new_buffer 19)
              [(2, 0), (step, 1), (2, 2), (cls, 3), (method, 4), (0, 5)])
       (\<lambda>b. bindE (writeFloatLE b v 6) (\<lambda>b. writeFloatLE b 0 10))"

definition writeMaxAltitude :: "32 word \<Rightarrow> adapter \<Rightarrow> outcome" where
  "writeMaxAltitude v a =
     (let a1 = a\<lparr>steps := (steps a)(FLIGHT_PARAMS_KEY := steps a FLIGHT_PARAMS_KEY + 1)\<rparr>
      in case limitBuffer (steps a1 FLIGHT_PARAMS_KEY) PILOTING_SETTINGS MAX_ALTITUDE v of
           Inl e \<Rightarrow> (a1, [], Some e)
         | Inr buffer \<Rightarrow>
             and_then (write' COMMAND_KEY buffer a1)
               (done_with [Emit ''maxAltitudeChange'' (JF32 v),
                           Log Debug ''Setting max altitude to ${altitude}m'' [JF32 v]]))"

definition writeMaxTilt :: "32 word \<Rightarrow> adapter \<Rightarrow> outcome" where
  "writeMaxTilt v a =
     (let a1 = a\<lparr>steps := (steps a)(FLIGHT_PARAMS_KEY := steps a FLIGHT_PARAMS_KEY + 1)\<rparr>
      in case limitBuffer (steps a1 FLIGHT_PARAMS_KEY) PILOTING_SETTINGS MAX_TILT v of
           Inl e \<Rightarrow> (a1, [], Some e)
         | Inr buffer \<Rightarrow>
             and_then (write' COMMAND_KEY buffer a1)
               (done_with [Emit ''maxTiltChange'' (JF32 v),
                           Log Debug ''Setting max tilt to ${tilt}% (20 deg max)'' [JF32 v]]))"

definition writeMaxVerticalSpeed :: "32 word \<Rightarrow> adapter \<Rightarrow> outcome" where
  "writeMaxVerticalSpeed v a =
     (let a1 = a\<lparr>steps := (steps a)(FLIGHT_PARAMS_KEY := steps a FLIGHT_PARAMS_KEY + 1)\<rparr>
      in case limitBuffer (steps a1 FLIGHT_PARAMS_KEY) SPEED_SETTINGS MAX_VERTICAL_SPEED v of
           Inl e \<Rightarrow> (a1, [], Some e)
         | Inr buffer \<Rightarrow>
             and_then (write' COMMAND_KEY buffer a1)
               (done_with [Emit ''maxVerticalSpeedChange'' (JF32 v),
                           Log Debug ''Setting max vertical speed to ${verticalSpeed} m/s'' [JF32 v]]))"

definition writeMaxRotationSpeed :: "32 word \<Rightarrow> adapter \<Rightarrow> outcome" where
  "writeMaxRotationSpeed v a =
     (let a1 = a\<lparr>steps := (steps a)(FLIGHT_PARAMS_KEY := steps a FLIGHT_PARAMS_KEY + 1)\<rparr>
      in case limitBuffer (steps a1 FLIGHT_PARAMS_KEY) SPEED_SETTINGS MAX_ROTATION_SPEED v of
           Inl e \<Rightarrow> (a1, [], Some e)
         | Inr buffer \<Rightarrow>
             and_then (write' COMMAND_KEY buffer a1)
               (done_with [Emit ''maxRotationSpeedChange'' (JF32 v),
                           Log Debug ''Setting max rotation speed to ${rotationSpeed} deg/s'' [JF32 v]]))"

text \<open>
  The shape the four limit writers share, with the class, the method and the closing
  effects as parameters, for facts about all of them at once.
\<close>

definition limit_call :: "int \<Rightarrow> int \<Rightarrow> 32 word \<Rightarrow> effect list \<Rightarrow> adapter \<Rightarrow> outcome" where
  "limit_call cls method v fin a =
     (let a1 = a\<lparr>steps := (steps a)(FLIGHT_PARAMS_KEY := steps a FLIGHT_PARAMS_KEY + 1)\<rparr>
      in case limitBuffer (steps a1 FLIGHT_PARAMS_KEY) cls method v of
           Inl e \<Rightarrow> (a1, [], Some e)
         | Inr buffer \<Rightarrow> and_then (write' COMMAND_KEY buffer a1) (done_with fin))"

section \<open>Decoding what the drone sends\<close>

text \<open>
  A read that throws ends the call with what was done up to it; otherwise the call goes on
  with the value read.
\<close>

definition reading :: "error + 'a \<Rightarrow> adapter \<Rightarrow> effect list \<Rightarrow> ('a \<Rightarrow> outcome) \<Rightarrow> outcome" where
  "reading r a pre f = (case r of Inl e \<Rightarrow> (a, pre, Some e) | Inr x \<Rightarrow> f x)"

text \<open>The five header bytes: dataType, steps, project, class, command.\<close>

definition readHeader :: "byte list \<Rightarrow> error + (nat \<times> nat \<times> nat \<times> nat \<times> nat)" where
  "readHeader data =
     bindE (readUInt8 data 0) (\<lambda>dataType.
     bindE (readUInt8 data 1) (\<lambda>stp.
     bindE (readUInt8 data 2) (\<lambda>project.
     bindE (readUInt8 data 3) (\<lambda>msgClass.
     bindE (readUInt8 data 4) (\<lambda>commandKey.
       Inr (dataType, stp, project, msgClass, commandKey))))))"

definition three_floats :: "byte list \<Rightarrow> error + jsval list" where
  "three_floats data =
     bindE (readFloatLE data 6) (\<lambda>cur.
     bindE (readFloatLE data 10) (\<lambda>mn.
     bindE (readFloatLE data 14) (\<lambda>mx. Inr [JF32 cur, JF32 mn, JF32 mx])))"

text \<open>The line each \<open>default\<close> branch below the project level logs.\<close>

definition missing :: "jsval list \<Rightarrow> effect" where
  "missing vals = Log Info ''Packet implementation missing : dataType | project | class | command'' vals"

text \<open>\<open>case 0\<close> of the project switch, after its \<open>COMMON\<close> line.\<close>

definition decodeCommon :: "adapter \<Rightarrow> byte list \<Rightarrow> effect list \<Rightarrow> nat \<Rightarrow> nat \<Rightarrow> jsval list \<Rightarrow> outcome" where
  "decodeCommon a data pre msgClass commandKey vals =
     (if msgClass = 5 then
        (if commandKey = 1 then
           reading (readUInt8 data 6) a pre (\<lambda>v.
             (a\<lparr>batteryLevel := JNum (int v)\<rparr>,
              pre @ [Emit ''batteryStatusChange'' (JNum (int v)),
                     Log Debug ''Battery level: ${this.batteryLevel}%'' [JNum (int v)]], None))
         else (a, pre @ [missing vals], None))
      else if msgClass = 30 then
        (if commandKey = 0 then
           (a, pre @ [Log Debug ''RunIdChanged : Used for Parrot Academy, no need to implement. Send a new unique number at TakeOff'' []], None)
         else (a, pre @ [missing vals], None))
      else (a, pre @ [missing vals], None))"

text \<open>\<open>case 2\<close> of the project switch, after its \<open>MINIDRONE\<close> line.\<close>

definition decodeMinidrone :: "adapter \<Rightarrow> byte list \<Rightarrow> effect list \<Rightarrow> nat \<Rightarrow> nat \<Rightarrow> jsval list \<Rightarrow> outcome" where
  "decodeMinidrone a data pre msgClass commandKey vals =
     (if msgClass = 18 then
        (if commandKey = 0 then
           reading (readFloatLE data 6) a pre (\<lambda>posx.
           reading (readFloatLE data 10) a pre (\<lambda>posy.
           reading (readUInt16LE data 14) a pre (\<lambda>posz.
           reading (readUInt16LE data 16) a pre (\<lambda>psi.
           reading (readUInt16LE data 18) a pre (\<lambda>ts.
             (a, pre @ [Emit ''dronePositionChange''
                          (JRec [(''x'', JF32 posx), (''y'', JF32 posy), (''z'', JNum (int posz)),
                                 (''psi'', JNum (int psi)), (''ts'', JNum (int ts))]),
                        Log Debug ''Position : x y z psi timestamp''
                          [JF32 posx, JF32 posy, JNum (int posz), JNum (int psi), JNum (int ts)]],
              None))))))
         else if commandKey = 1 then
           reading (readFloatLE data 6) a pre (\<lambda>speedx.
           reading (readFloatLE data 10) a pre (\<lambda>speedy.
           reading (readFloatLE data 14) a pre (\<lambda>speedz.
           reading (readUInt16LE data 18) a pre (\<lambda>ts.
             (a, pre @ [Emit ''droneSpeedChange''
                          (JRec [(''x'', JF32 speedx), (''y'', JF32 speedy), (''z'', JF32 speedz),
                                 (''ts'', JNum (int ts))]),
                        Log Debug ''Speed : x y z timestamp''
                          [JF32 speedx, JF32 speedy, JF32 speedz, JNum (int ts)]],
              None)))))
         else (a, pre @ [missing vals], None))
      else if msgClass = 3 then
        (if commandKey = 1 then
           reading (readUInt8 data 6) a pre (\<lambda>v.
             (a\<lparr>flightStatus := array_get FLIGHT_STATUSES v\<rparr>,
              pre @ [Emit ''flightStatusChange'' (array_get FLIGHT_STATUSES v),
                     Log Debug ''Flight status = ${this.flightStatus} - ${data.readUInt8(6)}''
                       [array_get FLIGHT_STATUSES v, JNum (int v)]], None))
         else if commandKey = 2 then
           reading (readUInt8 data 6) a pre (\<lambda>v.
             (a\<lparr>alertStatus := array_get ALERT_STATE_CHANGED v\<rparr>,
              pre @ [Emit ''alertStateChange'' (array_get ALERT_STATE_CHANGED v),
                     Log Debug ''AlertStateChange = ${this.alertStatus} - ${data.readUInt8(6)}''
                       [array_get ALERT_STATE_CHANGED v, JNum (int v)]], None))
         else if commandKey = 3 then
           reading (readUInt8 data 6) a pre (\<lambda>v.
             (a, pre @ [Log Debug ''AutoTakeOffModeChanged = ${autoTakeOffModeChanged}'' [JNum (int v)]], None))
         else (a, pre @ [missing vals], None))
      else if msgClass = 5 then
        (if commandKey = 0 then
           reading (three_floats data) a pre (\<lambda>fs.
             (a, pre @ [Log Info ''MaxVerticalSpeedChanged : current min max'' fs], None))
         else if commandKey = 1 then
           reading (three_floats data) a pre (\<lambda>fs.
             (a, pre @ [Log Info ''MaxRotationSpeedChanged : current min max'' fs], None))
         else (a, pre @ [missing vals], None))
      else if msgClass = 7 then
        (if commandKey = 1 then
           reading (readUInt8 data 6) a pre (\<lambda>st.
           reading (readUInt8 data 7) a pre (\<lambda>er.
             (a, pre @ [Log Debug ''PictureStateChangedV2 : state error''
                          [array_get pictureState st, array_get pictureStateError er]], None)))
         else (a, pre @ [missing vals], None))
      else if msgClass = 9 then
        (if commandKey = 0 then
           reading (three_floats data) a pre (\<lambda>fs.
             (a, pre @ [Log Info ''MaxAltitudeChanged : current min max'' fs], None))
         else if commandKey = 1 then
           reading (three_floats data) a pre (\<lambda>fs.
             (a, pre @ [Log Info ''MaxTiltChanged : current min max'' fs], None))
         else (a, pre @ [missing vals], None))
      else (a, pre @ [missing vals], None))"

definition decodePacket :: "adapter \<Rightarrow> byte list \<Rightarrow> outcome" where
  "decodePacket a data =
     reading (readHeader data) a [] (\<lambda>(dataType, stp, project, msgClass, commandKey).
       let vals = [JNum (int dataType), JNum (int project), JNum (int msgClass), JNum (int commandKey)];
           pre = (if dataType = 1 \<or> dataType = 2 \<or> dataType = 3 \<or> dataType = 4 then []
                  else [Log Info ''DataType missing : dataType | project | class | command'' vals])
       in if project = 0 then
            decodeCommon a data (pre @ [Log Debug ''COMMON'' []]) msgClass commandKey vals
          else if project = 1 then (a, pre @ [Log Info ''ARDRONE3'' []], None)
          else if project = 2 then
            decodeMinidrone a data (pre @ [Log Debug ''MINIDRONE'' []]) msgClass commandKey vals
          else (a, pre @ [Log Info ''Project missing missing : dataType | project | class | command'' vals],
                None))"

text \<open>
  The (project, class, command) triples whose branch reads a payload: battery level,
  flying state, alert state, auto-take-off mode, position, speed, the two speed limits,
  picture state and the two piloting limits.
\<close>

definition dispatch_table :: "(nat \<times> nat \<times> nat) list" where
  "dispatch_table =
     [(0, 5, 1), (2, 3, 1), (2, 3, 2), (2, 3, 3), (2, 18, 0), (2, 18, 1),
      (2, 5, 0), (2, 5, 1), (2, 7, 1), (2, 9, 0), (2, 9, 1)]"

text \<open>Both notification handlers hand the frame to \<open>decodePacket\<close>.\<close>

definition onRXCommandWithACK :: "adapter \<Rightarrow> byte list \<Rightarrow> outcome" where
  "onRXCommandWithACK a data = decodePacket a data"

definition onRXCommandNoACK :: "adapter \<Rightarrow> byte list \<Rightarrow> outcome" where
  "onRXCommandNoACK a data = decodePacket a data"

text \<open>
  Frames arrive one at a time; each is decoded on the state the one before left. Nothing
  in the adapter catches what a handler throws, so decoding stops at the first throw.
\<close>

fun decodeAll :: "adapter \<Rightarrow> byte list list \<Rightarrow> outcome" where
  "decodeAll a [] = (a, [], None)"
| "decodeAll a (d # ds) = and_then (decodePacket a d) (\<lambda>a'. decodeAll a' ds)"

section \<open>Recognising a drone\<close>

text \<open>
  \<open>new RegExp(pattern)\<close>: the empty pattern matches every string; what any other pattern
  matches is the parameter \<open>rx\<close>, which is \<open>None\<close> on a pattern \<open>RegExp\<close> rejects.
\<close>

definition newRegExp :: "(string \<Rightarrow> (string \<Rightarrow> bool) option) \<Rightarrow> string \<Rightarrow> error + (string \<Rightarrow> bool)" where
  "newRegExp rx pattern =
     (if pattern = [] then Inr (\<lambda>s. True)
      else case rx pattern of None \<Rightarrow> Inl InvalidRegExp | Some t \<Rightarrow> Inr t)"

definition validatePeripheral ::
  "(string \<Rightarrow> (string \<Rightarrow> bool) option) \<Rightarrow> adapter \<Rightarrow> advertisement option \<Rightarrow> error + jsval" where
  "validatePeripheral rx a discovered =
     (case discovered of
        None \<Rightarrow> Inr (JBool False)
      | Some adv \<Rightarrow>
          bindE (newRegExp rx (droneFilter a)) (\<lambda>re.
            let localNameMatch =
                  (if droneFilter a = [] then
                     (case localName adv of
                        None \<Rightarrow> JUndefined
                      | Some n \<Rightarrow>
                          js_and (JStr n) (JBool (list_ex (\<lambda>prefix. indexOf n prefix \<ge> 0) DRONE_PREFIXES)))
                   else JBool (re (case localName adv of None \<Rightarrow> ''undefined'' | Some n \<Rightarrow> n)));
                manufacturerMatch =
                  js_and (manufacturerData adv)
                    (JBool (array_indexOf MANUFACTURER_SERIALS (manufacturerData adv) \<ge> 0))
            in Inr (js_or localNameMatch manufacturerMatch)))"

section \<open>The drone and its flight loop\<close>

text \<open>
  \<open>network.name\<close> for a property name: the fields the adapter's constructor sets, the
  event emitter's own fields, the methods of the adapter class and of the event emitter,
  what \<open>Object.prototype\<close> provides, and \<open>undefined\<close> for every other name. Values the
  model does not track (the BLE objects, the emitter's listener table) stand as \<open>JFun\<close>.
\<close>

definition adapter_methods :: "string list" where
  "adapter_methods =
     [''onNobleStateChange'', ''write'', ''createBuffer'', ''writeFlightParams'', ''writeTrim'',
      ''writeTakeoff'', ''writeLand'', ''writeEmergency'', ''writeTakePicture'', ''writeAnimation'',
      ''writeMaxAltitude'', ''writeMaxTilt'', ''writeMaxVerticalSpeed'', ''writeMaxRotationSpeed'',
      ''onPeripheralDiscovery'', ''onDisconnect'', ''disconnect'', ''setupPeripheral'', ''updateRssi'',
      ''validatePeripheral'', ''getCharacteristic'', ''onRXCommandWithACK'', ''onRXCommandNoACK'',
      ''decodePacket'']"

definition event_emitter_names :: "string list" where
  "event_emitter_names =
     [''_events'', ''_eventsCount'', ''setMaxListeners'', ''getMaxListeners'', ''emit'',
      ''addListener'', ''on'', ''prependListener'', ''once'', ''prependOnceListener'',
      ''removeListener'', ''removeAllListeners'', ''listeners'', ''listenerCount'', ''eventNames'']"

definition adapter_property :: "adapter \<Rightarrow> string \<Rightarrow> jsval" where
  "adapter_property a name =
     (if name = ''options'' then JRec [(''droneFilter'', JStr (droneFilter a))]
      else if name = ''noble'' then JFun
      else if name = ''connected'' then JBool (connected a)
      else if name = ''peripheral'' then (case peripheral a of None \<Rightarrow> JNull | Some p \<Rightarrow> JFun)
      else if name = ''characteristics'' then JFun
      else if name = ''batteryLevel'' then batteryLevel a
      else if name = ''steps'' then
        JRec [(''fa0a'', JNum (steps a FLIGHT_PARAMS_KEY)), (''fa0b'', JNum (steps a COMMAND_KEY)),
              (''fa0c'', JNum (steps a EMERGENCY_KEY))]
      else if name = ''flightStatus'' then flightStatus a
      else if name = ''alertStatus'' then alertStatus a
      else if name = ''flightParams'' then fp_object (flightParams a)
      else if name = ''domain'' then JNull
      else if name = ''_maxListeners'' then JUndefined
      else if name \<in> set event_emitter_names then JFun
      else if name \<in> set adapter_methods then JFun
      else if name \<in> set object_prototype_names then JFun
      else JUndefined)"

record drone =
  drone_flightParams :: flight_params
  updateMS :: nat
  autoconnect :: bool
  network :: "adapter option"

text \<open>
  One tick of the interval timer. The drone's own state is not touched; the adapter's is,
  when the tick writes.
\<close>

definition eventLoop :: "drone \<Rightarrow> drone \<times> effect list \<times> error option" where
  "eventLoop d =
     (case network d of
        None \<Rightarrow> (d, [], None)
      | Some n \<Rightarrow>
          if \<not> truthy (adapter_property n ''flightStatusChange'') then (d, [], None)
          else (case writeFlightParams (drone_flightParams d) n of
                  (n', es, r) \<Rightarrow> (d\<lparr>network := Some n'\<rparr>, es, r)))"

section \<open>Sequences of calls\<close>

text \<open>The calls a pilot can make on the adapter, and a run of them up to the first throw.\<close>

datatype command =
    Trim
  | Takeoff
  | Land
  | Emergency
  | TakePicture
  | Animation string
  | FlightParams flight_params
  | MaxAltitude "32 word"
  | MaxTilt "32 word"
  | MaxVerticalSpeed "32 word"
  | MaxRotationSpeed "32 word"

fun exec :: "command \<Rightarrow> adapter \<Rightarrow> outcome" where
  "exec Trim a = writeTrim a"
| "exec Takeoff a = writeTakeoff a"
| "exec Land a = writeLand a"
| "exec Emergency a = writeEmergency a"
| "exec TakePicture a = writeTakePicture a"
| "exec (Animation n) a = writeAnimation n a"
| "exec (FlightParams p) a = writeFlightParams p a"
| "exec (MaxAltitude v) a = writeMaxAltitude v a"
| "exec (MaxTilt v) a = writeMaxTilt v a"
| "exec (MaxVerticalSpeed v) a = writeMaxVerticalSpeed v a"
| "exec (MaxRotationSpeed v) a = writeMaxRotationSpeed v a"

fun run :: "command list \<Rightarrow> adapter \<Rightarrow> outcome" where
  "run [] a = (a, [], None)"
| "run (c # cs) a = and_then (exec c a) (run cs)"

text \<open>The effects of one kind, in order.\<close>

fun events :: "effect list \<Rightarrow> (string \<times> jsval) list" where
  "events [] = []"
| "events (Emit n v # es) = (n, v) # events es"
| "events (e # es) = events es"

fun writes :: "effect list \<Rightarrow> (string \<times> byte list) list" where
  "writes [] = []"
| "writes (Write c buf # es) = (c, buf) # writes es"
| "writes (e # es) = writes es"

fun logs :: "effect list \<Rightarrow> (level \<times> string \<times> jsval list) list" where
  "logs [] = []"
| "logs (Log l t vs # es) = (l, t, vs) # logs es"
| "logs (e # es) = logs es"

text \<open>The step byte (offset 1) of every buffer written to characteristic \<open>c\<close>, in order.\<close>

fun sent_steps :: "string \<Rightarrow> effect list \<Rightarrow> byte list" where
  "sent_steps c [] = []"
| "sent_steps c (Write c' buf # es) = (if c' = c then take 1 (drop 1 buf) else []) @ sent_steps c es"
| "sent_steps c (e # es) = sent_steps c es"

text \<open>
  The channel a call belongs to: the one whose counter it increments and whose
  characteristic it writes to. The limit writers increment one counter and write to the
  other characteristic, an animation of unknown name does neither, and flight parameters
  outside the signed 16-bit range make \<open>writeInt16LE\<close> throw: these belong to none.
\<close>

fun channel_of :: "command \<Rightarrow> channel option" where
  "channel_of Trim = Some COMMAND_KEY"
| "channel_of Takeoff = Some COMMAND_KEY"
| "channel_of Land = Some COMMAND_KEY"
| "channel_of TakePicture = Some COMMAND_KEY"
| "channel_of (Animation n) = (if animations n = JUndefined then None else Some COMMAND_KEY)"
| "channel_of Emergency = Some EMERGENCY_KEY"
| "channel_of (FlightParams p) =
     (if int16 (roll p) \<and> int16 (pitch p) \<and> int16 (yaw p) \<and> int16 (altitude p)
      then Some FLIGHT_PARAMS_KEY else None)"
| "channel_of (MaxAltitude v) = None"
| "channel_of (MaxTilt v) = None"
| "channel_of (MaxVerticalSpeed v) = None"
| "channel_of (MaxRotationSpeed v) = None"

text \<open>
  A call that goes out and leaves its channel in order, seen from channel \<open>ch\<close>: it
  belongs to a channel \<open>k\<close>, the characteristic of \<open>k\<close> is there (\<open>cs\<close> names it), the
  counter of \<open>k\<close> is within 0 to 254, and a call of another channel is written to
  another characteristic than that of \<open>ch\<close>.
\<close>

definition sendable :: "(channel \<Rightarrow> string) \<Rightarrow> channel \<Rightarrow> adapter \<Rightarrow> command \<Rightarrow> bool" where
  "sendable cs ch a cmd =
     (case channel_of cmd of
        None \<Rightarrow> False
      | Some k \<Rightarrow> getCharacteristic a k = Some (cs k) \<and> 0 \<le> steps a k \<and> steps a k < 255
                  \<and> (k = ch \<or> cs k \<noteq> cs ch))"

section \<open>Example states\<close>

text \<open>
  What the discovery callback of \<open>setupPeripheral\<close> assigns: the characteristics found
  and the \<open>connected\<close> flag.
\<close>

definition attach :: "string list \<Rightarrow> adapter \<Rightarrow> adapter" where
  "attach cs a = a\<lparr>characteristics := cs, connected := True\<rparr>"

text \<open>The UUIDs of a MiniDrone's send and receive characteristics.\<close>

definition fa0a :: string where "fa0a = ''9a66fa0a0800919111e4012d1540cb8e''"
definition fa0b :: string where "fa0b = ''9a66fa0b0800919111e4012d1540cb8e''"
definition fa0c :: string where "fa0c = ''9a66fa0c0800919111e4012d1540cb8e''"
definition fb0e :: string where "fb0e = ''9a66fb0e0800919111e4012d1540cb8e''"
definition fb0f :: string where "fb0f = ''9a66fb0f0800919111e4012d1540cb8e''"

fun example_uuid :: "channel \<Rightarrow> string" where
  "example_uuid FLIGHT_PARAMS_KEY = fa0a"
| "example_uuid COMMAND_KEY = fa0b"
| "example_uuid EMERGENCY_KEY = fa0c"

definition fresh :: adapter where
  "fresh = new_adapter []"

definition fresh_connected :: adapter where
  "fresh_connected = attach [fa0a, fa0b, fa0c, fb0e, fb0f] fresh"

section \<open>Basic facts\<close>

lemma events_append [simp]: "events (xs @ ys) = events xs @ events ys"
  by (induction xs rule: events.induct) simp_all

lemma writes_append [simp]: "writes (xs @ ys) = writes xs @ writes ys"
  by (induction xs rule: writes.induct) simp_all

lemma logs_append [simp]: "logs (xs @ ys) = logs xs @ logs ys"
  by (induction xs rule: logs.induct) simp_all

lemma sent_steps_append [simp]: "sent_steps c (xs @ ys) = sent_steps c xs @ sent_steps c ys"
  by (induction xs rule: sent_steps.induct) simp_all

section \<open>The decoder\<close>

lemma readHeader_ok:
  "5 \<le> length data \<Longrightarrow>
   readHeader data =
     Inr (unat (data ! 0), unat (data ! 1), unat (data ! 2), unat (data ! 3), unat (data ! 4))"
  by (auto simp: readHeader_def readUInt8_def bindE_def)

lemma decodeCommon_unmatched:
  "(0, c, k) \<notin> set dispatch_table \<Longrightarrow>
   decodeCommon a data pre c k vals =
     (a, pre @ [if c = 30 \<and> k = 0
                then Log Debug ''RunIdChanged : Used for Parrot Academy, no need to implement. Send a new unique number at TakeOff'' []
                else missing vals], None)"
  by (auto simp: decodeCommon_def dispatch_table_def)

lemma decodeMinidrone_unmatched:
  "(2, c, k) \<notin> set dispatch_table \<Longrightarrow>
   decodeMinidrone a data pre c k vals = (a, pre @ [missing vals], None)"
  by (auto simp: decodeMinidrone_def dispatch_table_def)

lemma decodePacket_unmatched_report:
  assumes "5 \<le> length data"
    and "(unat (data ! 2), unat (data ! 3), unat (data ! 4)) \<notin> set dispatch_table"
  shows "decodePacket a data =
     (let t = unat (data ! 0); p = unat (data ! 2); c = unat (data ! 3); k = unat (data ! 4);
          vals = [JNum (int t), JNum (int p), JNum (int c), JNum (int k)]
      in (a,
          (if t = 1 \<or> t = 2 \<or> t = 3 \<or> t = 4 then []
           else [Log Info ''DataType missing : dataType | project | class | command'' vals])
          @ (if p = 0 then
               [Log Debug ''COMMON'' [],
                if c = 30 \<and> k = 0
                then Log Debug ''RunIdChanged : Used for Parrot Academy, no need to implement. Send a new unique number at TakeOff'' []
                else Log Info ''Packet implementation missing : dataType | project | class | command'' vals]
             else if p = 1 then [Log Info ''ARDRONE3'' []]
             else if p = 2 then
               [Log Debug ''MINIDRONE'' [],
                Log Info ''Packet implementation missing : dataType | project | class | command'' vals]
             else [Log Info ''Project missing missing : dataType | project | class | command'' vals]),
          None))"
proof -
  let ?p = "unat (data ! 2)" and ?c = "unat (data ! 3)" and ?k = "unat (data ! 4)"
  consider "?p = 0" | "?p = 1" | "?p = 2" | "?p \<noteq> 0 \<and> ?p \<noteq> 1 \<and> ?p \<noteq> 2"
    by blast
  then show ?thesis
  proof cases
    case 1
    with assms(2) have "(0, ?c, ?k) \<notin> set dispatch_table" by simp
    with 1 assms(1) show ?thesis
      by (simp add: decodePacket_def reading_def readHeader_ok Let_def decodeCommon_unmatched missing_def)
  next
    case 2
    with assms(1) show ?thesis
      by (simp add: decodePacket_def reading_def readHeader_ok Let_def)
  next
    case 3
    with assms(2) have "(2, ?c, ?k) \<notin> set dispatch_table" by simp
    with 3 assms(1) show ?thesis
      by (simp add: decodePacket_def reading_def readHeader_ok Let_def decodeMinidrone_unmatched missing_def)
  next
    case 4
    with assms(1) show ?thesis
      by (simp add: decodePacket_def reading_def readHeader_ok Let_def)
  qed
qed

text \<open>
  C5, as the code has it. A frame of at least five bytes whose (project, class, command)
  triple is not in the dispatch table is decoded without a throw; the adapter (battery
  level, flight status and alert status with it) is what it was, nothing is emitted or
  written, and the frames after it are decoded as they would have been without it. What is
  logged is exactly this: an info line with dataType, project, class and command when the
  dataType is none of 1 to 4; then, for project 0, the debug line \<open>COMMON\<close> and an info
  line \<open>Packet implementation missing\<close> with the four values (for class 30, command 0 the
  debug line \<open>RunIdChanged\<close> instead); for project 2, the debug line \<open>MINIDRONE\<close> and that
  info line; for a project above 2, an info line \<open>Project missing\<close> with the four values;
  and for project 1 the one info line \<open>ARDRONE3\<close>, which carries neither class nor
  command.
\<close>

theorem C5_unknown_triple_report:
  assumes "5 \<le> length data"
    and "(unat (data ! 2), unat (data ! 3), unat (data ! 4)) \<notin> set dispatch_table"
  shows "let t = unat (data ! 0); p = unat (data ! 2); c = unat (data ! 3); k = unat (data ! 4);
             vals = [JNum (int t), JNum (int p), JNum (int c), JNum (int k)];
             report =
               (if t = 1 \<or> t = 2 \<or> t = 3 \<or> t = 4 then []
                else [Log Info ''DataType missing : dataType | project | class | command'' vals])
               @ (if p = 0 then
                    [Log Debug ''COMMON'' [],
                     if c = 30 \<and> k = 0
                     then Log Debug ''RunIdChanged : Used for Parrot Academy, no need to implement. Send a new unique number at TakeOff'' []
                     else Log Info ''Packet implementation missing : dataType | project | class | command'' vals]
                  else if p = 1 then [Log Info ''ARDRONE3'' []]
                  else if p = 2 then
                    [Log Debug ''MINIDRONE'' [],
                     Log Info ''Packet implementation missing : dataType | project | class | command'' vals]
                  else [Log Info ''Project missing missing : dataType | project | class | command'' vals])
         in decodePacket a data = (a, report, None)
            \<and> events report = [] \<and> writes report = []
            \<and> decodeAll a (data # rest) =
                (case decodeAll a rest of (a', es', r) \<Rightarrow> (a', report @ es', r))"
  using decodePacket_unmatched_report [OF assms, of a]
  by (simp add: Let_def and_then_def split: prod.splits)

theorem C5_unknown_triple_report_witness:
  "5 \<le> length [2, 9, 2, 99, 0 :: byte]
   \<and> (unat ([2, 9, 2, 99, 0 :: byte] ! 2), unat ([2, 9, 2, 99, 0 :: byte] ! 3),
      unat ([2, 9, 2, 99, 0 :: byte] ! 4)) \<notin> set dispatch_table
   \<and> decodePacket fresh [2, 9, 2, 99, 0] =
       (fresh,
        [Log Debug ''MINIDRONE'' [],
         Log Info ''Packet implementation missing : dataType | project | class | command''
           [JNum 2, JNum 2, JNum 99, JNum 0]],
        None)
   \<and> decodeAll fresh [[2, 9, 2, 99, 0], [4, 7, 0, 5, 1, 0, 87]] =
       (case decodeAll fresh [[4, 7, 0, 5, 1, 0, 87]] of
          (a', es', r) \<Rightarrow>
            (a',
             [Log Debug ''MINIDRONE'' [],
              Log Info ''Packet implementation missing : dataType | project | class | command''
                [JNum 2, JNum 2, JNum 99, JNum 0]] @ es',
             r))"
proof -
  have h1: "5 \<le> length [2, 9, 2, 99, 0 :: byte]" by simp
  have h2: "(unat ([2, 9, 2, 99, 0 :: byte] ! 2), unat ([2, 9, 2, 99, 0 :: byte] ! 3),
             unat ([2, 9, 2, 99, 0 :: byte] ! 4)) \<notin> set dispatch_table"
    by (simp add: dispatch_table_def)
  from C5_unknown_triple_report [OF h1 h2, of fresh "[[4, 7, 0, 5, 1, 0, 87]]"] h1 h2
  show ?thesis by (simp add: Let_def del: decodeAll.simps)
qed

text \<open>
  The claim as stated fails for project 1: two frames that differ in class and command
  are decoded to the same state and the same single line \<open>ARDRONE3\<close>, so nothing that is
  logged tells the one unmatched triple from the other.
\<close>

theorem C5_counterexample:
  "(1, 7, 9) \<notin> set dispatch_table \<and> (1, 200, 100) \<notin> set dispatch_table
   \<and> decodePacket fresh [2, 0, 1, 7, 9] = (fresh, [Log Info ''ARDRONE3'' []], None)
   \<and> decodePacket fresh [2, 0, 1, 200, 100] = (fresh, [Log Info ''ARDRONE3'' []], None)"
  by (simp add: dispatch_table_def decodePacket_def reading_def readHeader_def readUInt8_def
      bindE_def Let_def)

text \<open>
  C6. A BatteryStateChanged frame (project 0, class 5, command 1) with a byte at offset 6
  sets \<open>batteryLevel\<close> to that byte and changes no other field, emits exactly one
  \<open>batteryStatusChange\<close> event carrying it, and writes nothing; \<open>flightStatus\<close> and
  \<open>alertStatus\<close> are what they were.
\<close>

theorem C6_battery_frame_updates_only_batteryLevel:
  assumes "7 \<le> length data"
    and "unat (data ! 2) = 0" and "unat (data ! 3) = 5" and "unat (data ! 4) = 1"
  shows "\<exists>es. decodePacket a data = (a\<lparr>batteryLevel := JNum (int (unat (data ! 6)))\<rparr>, es, None)
           \<and> events es = [(''batteryStatusChange'', JNum (int (unat (data ! 6))))]
           \<and> writes es = []
           \<and> flightStatus (state_of (decodePacket a data)) = flightStatus a
           \<and> alertStatus (state_of (decodePacket a data)) = alertStatus a"
  using assms
  by (simp add: decodePacket_def reading_def readHeader_ok Let_def decodeCommon_def readUInt8_def)

theorem C6_battery_frame_updates_only_batteryLevel_witness:
  "7 \<le> length [4, 7, 0, 5, 1, 0, 87 :: byte]
   \<and> unat ([4, 7, 0, 5, 1, 0, 87 :: byte] ! 2) = 0
   \<and> unat ([4, 7, 0, 5, 1, 0, 87 :: byte] ! 3) = 5
   \<and> unat ([4, 7, 0, 5, 1, 0, 87 :: byte] ! 4) = 1
   \<and> (\<exists>es. decodePacket fresh [4, 7, 0, 5, 1, 0, 87] = (fresh\<lparr>batteryLevel := JNum 87\<rparr>, es, None)
          \<and> events es = [(''batteryStatusChange'', JNum 87)]
          \<and> writes es = []
          \<and> flightStatus (state_of (decodePacket fresh [4, 7, 0, 5, 1, 0, 87])) = flightStatus fresh
          \<and> alertStatus (state_of (decodePacket fresh [4, 7, 0, 5, 1, 0, 87])) = alertStatus fresh)"
proof -
  have h: "7 \<le> length [4, 7, 0, 5, 1, 0, 87 :: byte]"
    "unat ([4, 7, 0, 5, 1, 0, 87 :: byte] ! 2) = 0"
    "unat ([4, 7, 0, 5, 1, 0, 87 :: byte] ! 3) = 5"
    "unat ([4, 7, 0, 5, 1, 0, 87 :: byte] ! 4) = 1"
    by simp_all
  have v: "int (unat ([4, 7, 0, 5, 1, 0, 87 :: byte] ! 6)) = 87" by simp
  from C6_battery_frame_updates_only_batteryLevel [OF h, of fresh] h show ?thesis
    unfolding v by blast
qed

text \<open>
  C8. A flying-state frame (project 2, class 3, command 1) with a byte at offset 6 is
  decoded without a throw whatever the index is; index 2 emits \<open>flightStatusChange\<close>
  with \<open>hovering\<close>, index 7 with \<open>initializing\<close>; index 8, past the end of the eight
  statuses, emits the event with \<open>undefined\<close> and stores \<open>undefined\<close> as flight status.
\<close>

theorem C8_flight_status_frame:
  assumes "7 \<le> length data"
    and "unat (data ! 2) = 2" and "unat (data ! 3) = 3" and "unat (data ! 4) = 1"
  shows "thrown_of (decodePacket a data) = None
     \<and> (unat (data ! 6) = 2 \<longrightarrow>
          events (effects_of (decodePacket a data)) = [(''flightStatusChange'', JStr ''hovering'')])
     \<and> (unat (data ! 6) = 7 \<longrightarrow>
          events (effects_of (decodePacket a data)) = [(''flightStatusChange'', JStr ''initializing'')])
     \<and> (unat (data ! 6) = 8 \<longrightarrow>
          events (effects_of (decodePacket a data)) = [(''flightStatusChange'', JUndefined)]
          \<and> flightStatus (state_of (decodePacket a data)) = JUndefined)"
  using assms
  by (simp add: decodePacket_def reading_def readHeader_ok Let_def decodeMinidrone_def
      readUInt8_def array_get_def FLIGHT_STATUSES_def)

theorem C8_flight_status_frame_witness:
  "events (effects_of (decodePacket fresh [4, 1, 2, 3, 1, 0, 2])) = [(''flightStatusChange'', JStr ''hovering'')]
   \<and> events (effects_of (decodePacket fresh [4, 1, 2, 3, 1, 0, 7])) = [(''flightStatusChange'', JStr ''initializing'')]
   \<and> events (effects_of (decodePacket fresh [4, 1, 2, 3, 1, 0, 8])) = [(''flightStatusChange'', JUndefined)]
   \<and> flightStatus (state_of (decodePacket fresh [4, 1, 2, 3, 1, 0, 8])) = JUndefined
   \<and> thrown_of (decodePacket fresh [4, 1, 2, 3, 1, 0, 8]) = None"
  using C8_flight_status_frame [of "[4, 1, 2, 3, 1, 0, 2]" fresh]
    C8_flight_status_frame [of "[4, 1, 2, 3, 1, 0, 7]" fresh]
    C8_flight_status_frame [of "[4, 1, 2, 3, 1, 0, 8]" fresh]
  by simp

section \<open>Buffers\<close>

lemmas md_consts =
  PILOTING_def SPEED_SETTINGS_def ANIMATION_def MEDIA_RECORD_def PILOTING_SETTINGS_def
  TRIM_def TAKEOFF_def LAND_def EMERGENCY_def PICTURE_def FLIP_def MAX_ALTITUDE_def
  MAX_TILT_def MAX_VERTICAL_SPEED_def MAX_ROTATION_SPEED_def MD_DATA_TYPES_DATA_def
  MD_DEVICE_TYPE_def

lemma mask8: "(255::int) = mask 8"
  by (simp add: mask_eq_exp_minus_1)

lemma low_byte_mask: "(word_of_int (x AND 0xFF) :: byte) = word_of_int x"
  by (simp only: mask8 flip: take_bit_eq_mask) (simp add: word_of_int_eq_iff)

lemma new_buffer_19: "new_buffer 19 = [0, 0, 0, 0, 0, 0, 0, 0, 0, 0, 0, 0, 0, 0, 0, 0, 0, 0, 0]"
  by (simp add: new_buffer_def numeral_eq_Suc)

lemma flightParamsBuffer_layout:
  assumes "int16 step" "int16 (roll p)" "int16 (pitch p)" "int16 (yaw p)" "int16 (altitude p)"
  shows "flightParamsBuffer step p =
     Inr [2, word_of_int step, 2, 0, 2, 0, 1, word_of_int (roll p), word_of_int (pitch p),
          word_of_int (yaw p), word_of_int (altitude p), 0, 0, 0, 0, 0, 0, 0, 0]"
  using assms unfolding flightParamsBuffer_def new_buffer_19
  by (simp add: writeInt16LE_def writeFloatLE_def bindE_def int16_def numeral_eq_Suc)

lemma limitBuffer_layout:
  assumes "int16 step" "int16 cls" "int16 method"
  shows "limitBuffer step cls method v =
     Inr [2, word_of_int step, 2, word_of_int cls, word_of_int method, 0,
          ucast v, ucast (drop_bit 8 v), ucast (drop_bit 16 v), ucast (drop_bit 24 v),
          0, 0, 0, 0, 0, 0, 0, 0, 0]"
  using assms unfolding limitBuffer_def new_buffer_19
  by (simp add: writeInt16LE_def writeFloatLE_def bindE_def int16_def numeral_eq_Suc)

lemma limitBuffer_throws:
  assumes "\<not> int16 step"
  shows "limitBuffer step cls method v = Inl ValueOutOfBounds"
  using assms unfolding limitBuffer_def new_buffer_19
  by (auto simp add: writeInt16LE_def bindE_def int16_def)

section \<open>Writes and counters\<close>

lemma getCharacteristic_Some_nonempty:
  "getCharacteristic a ch = Some c \<Longrightarrow> characteristics a \<noteq> []"
  by (auto simp: getCharacteristic_def)

lemma getCharacteristic_update [simp]:
  "getCharacteristic (a\<lparr>steps := f\<rparr>) ch = getCharacteristic a ch"
  "getCharacteristic (a\<lparr>flightParams := p\<rparr>) ch = getCharacteristic a ch"
  by (simp_all add: getCharacteristic_def)

lemma write'_attached:
  "getCharacteristic a ch = Some c \<Longrightarrow>
   write' ch buf a =
     ((if steps a ch \<ge> 255 then a\<lparr>steps := (steps a)(ch := 0)\<rparr> else a), [Write c buf], None)"
  by (frule getCharacteristic_Some_nonempty) (simp add: write'_def Let_def)

lemma write'_detached:
  "characteristics a = [] \<Longrightarrow>
   write' ch buf a =
     (a, [Log Warn ''You must have bluetooth enabled and be connected to a drone before executing a command.'' []], None)"
  by (simp add: write'_def)

lemma getCharacteristic_cong:
  "characteristics a' = characteristics a \<Longrightarrow> getCharacteristic a' k = getCharacteristic a k"
  by (simp add: getCharacteristic_def)

text \<open>What a call on channel \<open>k\<close> writes and leaves behind when the frame goes out.\<close>

lemma buffered_call_frame:
  assumes "getCharacteristic a k = Some c" and "sent_steps c' ls = []"
  shows "\<exists>a' es. (case createBuffer k args a of
                     (a1, buffer) \<Rightarrow> and_then (write' k buffer a1) (done_with ls)) = (a', es, None)
      \<and> sent_steps c' es = (if c' = c then [word_of_int (steps a k + 1)] else [])
      \<and> steps a' = (steps a)(k := (if steps a k + 1 \<ge> 255 then 0 else steps a k + 1))
      \<and> characteristics a' = characteristics a"
proof -
  let ?a1 = "a\<lparr>steps := (steps a)(k := steps a k + 1)\<rparr>"
  from assms(1) have g: "getCharacteristic ?a1 k = Some c" by simp
  show ?thesis
    using assms
    by (simp add: createBuffer_def Let_def write'_attached [OF g] and_then_def done_with_def
        low_byte_mask)
qed

lemma exec_frame:
  assumes "channel_of cmd = Some k" and "getCharacteristic a k = Some c"
    and "0 \<le> steps a k" and "steps a k < 255"
  shows "\<exists>a' es. exec cmd a = (a', es, None)
      \<and> sent_steps c' es = (if c' = c then [word_of_int (steps a k + 1)] else [])
      \<and> steps a' = (steps a)(k := (if steps a k + 1 \<ge> 255 then 0 else steps a k + 1))
      \<and> characteristics a' = characteristics a"
proof (cases cmd)
  case Trim
  with assms(1) have "k = COMMAND_KEY" by simp
  with Trim buffered_call_frame [OF assms(2), of c' "[Log Info ''Trim command called'' []]"]
  show ?thesis by (simp add: writeTrim_def)
next
  case Takeoff
  with assms(1) have "k = COMMAND_KEY" by simp
  with Takeoff buffered_call_frame [OF assms(2), of c' "[Log Info ''Takeoff command called'' []]"]
  show ?thesis by (simp add: writeTakeoff_def)
next
  case Land
  with assms(1) have "k = COMMAND_KEY" by simp
  with Land buffered_call_frame [OF assms(2), of c' "[Log Info ''Land command called'' []]"]
  show ?thesis by (simp add: writeLand_def)
next
  case Emergency
  with assms(1) have "k = EMERGENCY_KEY" by simp
  with Emergency buffered_call_frame [OF assms(2), of c' "[Log Info ''Emergency command called'' []]"]
  show ?thesis by (simp add: writeEmergency_def)
next
  case TakePicture
  with assms(1) have "k = COMMAND_KEY" by simp
  with TakePicture buffered_call_frame [OF assms(2), of c' "[Log Info ''Take picture command called'' []]"]
  show ?thesis by (simp add: writeTakePicture_def)
next
  case (Animation n)
  with assms(1) have ch: "k = COMMAND_KEY" and n: "animations n \<noteq> JUndefined"
    by (simp_all split: if_splits)
  with Animation
    buffered_call_frame [OF assms(2),
      of c' "[Log Info ''Animation command called with ${animation} argument'' [JStr n]]"]
  show ?thesis by (simp add: writeAnimation_def)
next
  case (FlightParams p)
  with assms(1) have ch: "k = FLIGHT_PARAMS_KEY"
    and p: "int16 (roll p)" "int16 (pitch p)" "int16 (yaw p)" "int16 (altitude p)"
    by (simp_all split: if_splits)
  from assms(3,4) have s: "int16 (steps a k + 1)" by (simp add: int16_def)
  let ?a2 = "a\<lparr>flightParams := p,
                steps := (steps a)(FLIGHT_PARAMS_KEY := steps a FLIGHT_PARAMS_KEY + 1)\<rparr>"
  from assms(2) ch have g: "getCharacteristic ?a2 FLIGHT_PARAMS_KEY = Some c" by simp
  show ?thesis
    using s p ch assms(2)
    by (simp add: FlightParams writeFlightParams_def Let_def flightParamsBuffer_layout
        write'_attached [OF g] and_then_def done_with_def)
qed (use assms(1) in simp_all)

lemma next_step_mod:
  assumes "0 \<le> (s::int)" and "s < 255"
  shows "(if s + 1 \<ge> 255 then 0 else s + 1) = (s + 1) mod 255"
proof (cases "s = 254")
  case True
  then show ?thesis by simp
next
  case False
  with assms show ?thesis by simp
qed

lemma sendable_after:
  assumes "sendable cs ch a cmd" and "characteristics a' = characteristics a"
    and "steps a' = (steps a)(k := v)" and "0 \<le> v" and "v < 255"
  shows "sendable cs ch a' cmd"
proof -
  from assms(1) obtain j where j: "channel_of cmd = Some j"
    and g: "getCharacteristic a j = Some (cs j)"
    and r: "0 \<le> steps a j" "steps a j < 255" and d: "j = ch \<or> cs j \<noteq> cs ch"
    by (auto simp: sendable_def split: option.splits)
  from g getCharacteristic_cong [OF assms(2), of j] have g': "getCharacteristic a' j = Some (cs j)"
    by simp
  have "0 \<le> steps a' j \<and> steps a' j < 255"
  proof (cases "j = k")
    case True
    with assms(3,4,5) show ?thesis by simp
  next
    case False
    with assms(3) r show ?thesis by simp
  qed
  with j g' d show ?thesis by (simp add: sendable_def)
qed

text \<open>
  A run of calls, each of them sendable: the frames written to the characteristic of
  \<open>ch\<close> are those of the calls of \<open>ch\<close>, and the \<open>i\<close>-th of them (from 0) carries
  \<open>(s + i) mod 255 + 1\<close>, where \<open>s\<close> is the counter of \<open>ch\<close> at the start.
\<close>

lemma run_interleaved:
  assumes "list_all (sendable cs ch a) cmds" and "0 \<le> steps a ch" and "steps a ch < 255"
  shows "\<exists>a' es. run cmds a = (a', es, None)
      \<and> sent_steps (cs ch) es =
          map (\<lambda>i. word_of_int ((steps a ch + int i) mod 255 + 1))
            [0..<length (filter (\<lambda>cmd. channel_of cmd = Some ch) cmds)]
      \<and> steps a' ch = (steps a ch + int (length (filter (\<lambda>cmd. channel_of cmd = Some ch) cmds))) mod 255"
  using assms
proof (induction cmds arbitrary: a)
  case Nil
  then show ?case by simp
next
  case (Cons cmd cmds)
  from Cons.prems(1) have sc: "sendable cs ch a cmd" and rest: "list_all (sendable cs ch a) cmds"
    by simp_all
  from sc obtain k where k: "channel_of cmd = Some k" and g: "getCharacteristic a k = Some (cs k)"
    and r: "0 \<le> steps a k" "steps a k < 255" and d: "k = ch \<or> cs k \<noteq> cs ch"
    by (auto simp: sendable_def split: option.splits)
  let ?v = "if steps a k + 1 \<ge> 255 then 0 else steps a k + 1"
  from exec_frame [OF k g r, of "cs ch"] obtain a1 es1 where
    e: "exec cmd a = (a1, es1, None)"
    and s1: "sent_steps (cs ch) es1 = (if cs ch = cs k then [word_of_int (steps a k + 1)] else [])"
    and st: "steps a1 = (steps a)(k := ?v)"
    and c1: "characteristics a1 = characteristics a" by blast
  from r have v: "0 \<le> ?v" "?v < 255" by simp_all
  have rest1: "list_all (sendable cs ch a1) cmds"
    using rest sendable_after [OF _ c1 st v] by (simp add: list_all_iff)
  show ?case
  proof (cases "k = ch")
    case True
    from st True have "steps a1 ch = (if steps a ch + 1 \<ge> 255 then 0 else steps a ch + 1)"
      by (simp only: fun_upd_same)
    with Cons.prems(2,3) have st': "steps a1 ch = (steps a ch + 1) mod 255"
      by (simp only: next_step_mod)
    then have r1: "0 \<le> steps a1 ch" "steps a1 ch < 255" by simp_all
    from Cons.IH [OF rest1 r1] obtain a2 es2 where
      r2: "run cmds a1 = (a2, es2, None)"
      and s2: "sent_steps (cs ch) es2 =
                 map (\<lambda>i. word_of_int ((steps a1 ch + int i) mod 255 + 1))
                   [0..<length (filter (\<lambda>cmd. channel_of cmd = Some ch) cmds)]"
      and st2: "steps a2 ch =
                 (steps a1 ch + int (length (filter (\<lambda>cmd. channel_of cmd = Some ch) cmds))) mod 255"
      by blast
    have m: "\<And>i. (steps a1 ch + int i) mod 255 = (steps a ch + int (Suc i)) mod 255"
      by (simp add: st' mod_add_left_eq add.assoc)
    have first: "(steps a ch + int 0) mod 255 = steps a ch" using Cons.prems(2,3) by simp
    show ?thesis
      using e r2 s1 s2 st2 first k True
      by (simp add: and_then_def map_upt_Suc m del: upt_Suc)
  next
    case False
    with d have ne: "cs k \<noteq> cs ch" by simp
    from st False have same: "steps a1 ch = steps a ch" by simp
    with Cons.prems(2,3) have r1: "0 \<le> steps a1 ch" "steps a1 ch < 255" by simp_all
    from Cons.IH [OF rest1 r1] obtain a2 es2 where
      r2: "run cmds a1 = (a2, es2, None)"
      and s2: "sent_steps (cs ch) es2 =
                 map (\<lambda>i. word_of_int ((steps a1 ch + int i) mod 255 + 1))
                   [0..<length (filter (\<lambda>cmd. channel_of cmd = Some ch) cmds)]"
      and st2: "steps a2 ch =
                 (steps a1 ch + int (length (filter (\<lambda>cmd. channel_of cmd = Some ch) cmds))) mod 255"
      by blast
    show ?thesis
      using e r2 s1 s2 st2 k False ne same
      by (simp add: and_then_def)
  qed
qed

lemma run_interleaved_from_zero:
  assumes "list_all (sendable cs ch a) cmds" and "steps a ch = 0"
  shows "thrown_of (run cmds a) = None
     \<and> sent_steps (cs ch) (effects_of (run cmds a)) =
         map (\<lambda>i. word_of_int (int (i mod 255) + 1))
           [0..<length (filter (\<lambda>cmd. channel_of cmd = Some ch) cmds)]
     \<and> steps (state_of (run cmds a)) ch =
         int (length (filter (\<lambda>cmd. channel_of cmd = Some ch) cmds) mod 255)"
proof -
  from assms(2) have "0 \<le> steps a ch" "steps a ch < 255" by simp_all
  from run_interleaved [OF assms(1) this] assms(2) show ?thesis
    by (auto simp: zmod_int)
qed

lemma fresh_connected_characteristic:
  "getCharacteristic fresh_connected FLIGHT_PARAMS_KEY = Some fa0a"
  "getCharacteristic fresh_connected COMMAND_KEY = Some fa0b"
  "getCharacteristic fresh_connected EMERGENCY_KEY = Some fa0c"
  by (simp_all add: getCharacteristic_def fresh_connected_def attach_def fresh_def new_adapter_def
      indexOf_def fa0a_def fa0b_def fa0c_def fb0e_def fb0f_def)

lemma fresh_connected_steps [simp]: "steps fresh_connected ch = 0"
  by (simp add: fresh_connected_def attach_def fresh_def new_adapter_def)

section \<open>The step sequence of a channel\<close>

lemma example_uuid_sendable:
  "sendable example_uuid ch fresh_connected Trim"
  "sendable example_uuid ch fresh_connected Emergency"
  "sendable example_uuid ch fresh_connected
     (FlightParams \<lparr>roll = 10, pitch = - 5, yaw = 0, altitude = 20\<rparr>)"
  by (cases ch; simp add: sendable_def fresh_connected_characteristic int16_def
      fa0a_def fa0b_def fa0c_def)+

text \<open>
  C1, as the code has it. Take any sequence of calls of \<open>writeTrim\<close>, \<open>writeTakeoff\<close>,
  \<open>writeLand\<close>, \<open>writeTakePicture\<close>, \<open>writeAnimation\<close> with a name that passes its guard
  (command channel), \<open>writeEmergency\<close> (emergency channel) and \<open>writeFlightParams\<close> with
  values in the signed 16-bit range (flight-params channel), in any order and on any mix
  of channels, where each channel used has its characteristic attached and its counter
  within 0 to 254, and no other channel used shares the characteristic of the channel
  looked at. If the counter of that channel starts at 0, nothing is thrown and the \<open>n\<close>-th
  frame sent on that channel carries step \<open>(n - 1) mod 255 + 1\<close> in its one step byte:
  1 to 255 for the first 255 sends, and 1 again for the 256th, since \<open>write\<close> puts the
  counter back to 0 once the frame carrying 255 is out and the next call pre-increments it.
  After \<open>n\<close> sends on the channel its counter is \<open>n mod 255\<close>. The four limit writers are
  left out: they write to the command characteristic with the flight-params counter.
\<close>

theorem C1_step_restarts_at_one:
  assumes "list_all (sendable cs ch a) cmds" and "steps a ch = 0"
  shows "thrown_of (run cmds a) = None
     \<and> sent_steps (cs ch) (effects_of (run cmds a)) =
         map (\<lambda>i. word_of_int (int (i mod 255) + 1))
           [0..<length (filter (\<lambda>cmd. channel_of cmd = Some ch) cmds)]
     \<and> steps (state_of (run cmds a)) ch =
         int (length (filter (\<lambda>cmd. channel_of cmd = Some ch) cmds) mod 255)"
  using run_interleaved_from_zero [OF assms] .

theorem C1_step_restarts_at_one_witness:
  "list_all (sendable example_uuid COMMAND_KEY fresh_connected)
     (Emergency # FlightParams \<lparr>roll = 10, pitch = - 5, yaw = 0, altitude = 20\<rparr>
        # replicate 256 Trim)
   \<and> steps fresh_connected COMMAND_KEY = 0
   \<and> thrown_of (run (Emergency # FlightParams \<lparr>roll = 10, pitch = - 5, yaw = 0, altitude = 20\<rparr>
        # replicate 256 Trim) fresh_connected) = None
   \<and> sent_steps fa0b (effects_of (run (Emergency
        # FlightParams \<lparr>roll = 10, pitch = - 5, yaw = 0, altitude = 20\<rparr>
        # replicate 256 Trim) fresh_connected)) =
       map (\<lambda>i. word_of_int (int (i mod 255) + 1)) [0..<256]
   \<and> steps (state_of (run (Emergency
        # FlightParams \<lparr>roll = 10, pitch = - 5, yaw = 0, altitude = 20\<rparr>
        # replicate 256 Trim) fresh_connected)) COMMAND_KEY = 1"
proof -
  let ?cmds = "Emergency # FlightParams \<lparr>roll = 10, pitch = - 5, yaw = 0, altitude = 20\<rparr>
                 # replicate 256 Trim"
  have h1: "list_all (sendable example_uuid COMMAND_KEY fresh_connected) ?cmds"
    by (simp add: list_all_iff example_uuid_sendable)
  have h2: "steps fresh_connected COMMAND_KEY = 0" by simp
  have n: "length (filter (\<lambda>cmd. channel_of cmd = Some COMMAND_KEY) ?cmds) = 256"
    by (simp add: int16_def)
  from C1_step_restarts_at_one [OF h1 h2] h1 h2 show ?thesis
    unfolding n by simp
qed

text \<open>
  The claim as stated fails on each of the three channels: the 256th frame sent from a
  fresh counter carries step 1, not 0. It fails on the command channel in a second way:
  a limit write is a send on the command characteristic too, and \<open>writeTrim\<close> followed by
  \<open>writeMaxAltitude\<close> puts the steps 1, 1 there, not 1, 2.
\<close>

theorem C1_counterexample:
  "sent_steps fa0b (effects_of (run (replicate 256 Trim) fresh_connected)) ! 255 = 1
   \<and> sent_steps fa0b (effects_of (run (replicate 256 Trim) fresh_connected)) ! 255 \<noteq> 0
   \<and> sent_steps fa0c (effects_of (run (replicate 256 Emergency) fresh_connected)) ! 255 = 1
   \<and> sent_steps fa0a (effects_of (run (replicate 256
        (FlightParams \<lparr>roll = 10, pitch = - 5, yaw = 0, altitude = 20\<rparr>)) fresh_connected)) ! 255 = 1
   \<and> sent_steps fa0b (effects_of (run [Trim, MaxAltitude 0x40A00000] fresh_connected)) = [1, 1]"
proof -
  let ?p = "\<lparr>roll = 10, pitch = - 5, yaw = 0, altitude = 20\<rparr>"
  have t: "list_all (sendable example_uuid COMMAND_KEY fresh_connected) (replicate 256 Trim)"
    by (simp add: list_all_iff example_uuid_sendable)
  have e: "list_all (sendable example_uuid EMERGENCY_KEY fresh_connected) (replicate 256 Emergency)"
    by (simp add: list_all_iff example_uuid_sendable)
  have f: "list_all (sendable example_uuid FLIGHT_PARAMS_KEY fresh_connected)
             (replicate 256 (FlightParams ?p))"
    by (simp add: list_all_iff example_uuid_sendable)
  have n: "map (\<lambda>i. word_of_int (int (i mod 255) + 1)) [0..<256] ! 255 = (1 :: byte)"
    by (simp del: upt_Suc)
  have g: "getCharacteristic (fresh_connected\<lparr>steps := f\<rparr>) COMMAND_KEY = Some fa0b" for f
    by (simp add: fresh_connected_characteristic)
  have l: "sent_steps fa0b (effects_of (run [Trim, MaxAltitude 0x40A00000] fresh_connected)) = [1, 1]"
    by (simp add: writeTrim_def createBuffer_def writeMaxAltitude_def Let_def limitBuffer_layout
        int16_def md_consts write'_attached [OF g] and_then_def done_with_def)
  from run_interleaved_from_zero [OF t] run_interleaved_from_zero [OF e]
    run_interleaved_from_zero [OF f] n l
  show ?thesis by (simp add: int16_def)
qed

section \<open>The flight-params frame\<close>

lemma writeFlightParams_attached:
  assumes "int16 (roll p)" and "int16 (pitch p)" and "int16 (yaw p)" and "int16 (altitude p)"
    and "int16 (steps a FLIGHT_PARAMS_KEY + 1)"
    and "getCharacteristic a FLIGHT_PARAMS_KEY = Some c"
  shows "writes (effects_of (writeFlightParams p a)) =
           [(c, [2, word_of_int (steps a FLIGHT_PARAMS_KEY + 1), 2, 0, 2, 0, 1,
                 word_of_int (roll p), word_of_int (pitch p), word_of_int (yaw p),
                 word_of_int (altitude p), 0, 0, 0, 0, 0, 0, 0, 0])]
     \<and> thrown_of (writeFlightParams p a) = None"
proof -
  let ?a2 = "a\<lparr>flightParams := p,
                steps := (steps a)(FLIGHT_PARAMS_KEY := steps a FLIGHT_PARAMS_KEY + 1)\<rparr>"
  from assms(6) have g: "getCharacteristic ?a2 FLIGHT_PARAMS_KEY = Some c" by simp
  show ?thesis
    using assms(1-5)
    by (simp add: writeFlightParams_def Let_def flightParamsBuffer_layout
        write'_attached [OF g] and_then_def done_with_def)
qed

text \<open>
  C3, as the code has it. With all four values and the new step in the signed 16-bit range,
  \<open>writeFlightParams\<close> builds the 19 bytes
  \<open>[2, step, 2, 0, 2, 0, 1, roll, pitch, yaw, altitude, 0, 0, 0, 0, 0, 0, 0, 0]\<close>:
  each 16-bit write starts one byte after the one before, so only the low byte of each
  value stays, one byte per field, and eight zero bytes follow. With the characteristic
  there, that buffer is the one frame written, and nothing is thrown.
\<close>

theorem C3_flight_params_frame:
  assumes "int16 (roll p)" and "int16 (pitch p)" and "int16 (yaw p)" and "int16 (altitude p)"
    and "int16 (steps a FLIGHT_PARAMS_KEY + 1)"
    and "getCharacteristic a FLIGHT_PARAMS_KEY = Some c"
  shows "writes (effects_of (writeFlightParams p a)) =
           [(c, [2, word_of_int (steps a FLIGHT_PARAMS_KEY + 1), 2, 0, 2, 0, 1,
                 word_of_int (roll p), word_of_int (pitch p), word_of_int (yaw p),
                 word_of_int (altitude p), 0, 0, 0, 0, 0, 0, 0, 0])]
     \<and> thrown_of (writeFlightParams p a) = None"
  using writeFlightParams_attached [OF assms] .

theorem C3_flight_params_frame_witness:
  "int16 10 \<and> int16 (- 5) \<and> int16 0 \<and> int16 20
   \<and> int16 (steps fresh_connected FLIGHT_PARAMS_KEY + 1)
   \<and> getCharacteristic fresh_connected FLIGHT_PARAMS_KEY = Some fa0a
   \<and> writes (effects_of (writeFlightParams \<lparr>roll = 10, pitch = - 5, yaw = 0, altitude = 20\<rparr>
        fresh_connected)) =
       [(fa0a, [2, 1, 2, 0, 2, 0, 1, 10, 251, 0, 20, 0, 0, 0, 0, 0, 0, 0, 0])]
   \<and> thrown_of (writeFlightParams \<lparr>roll = 10, pitch = - 5, yaw = 0, altitude = 20\<rparr>
        fresh_connected) = None"
proof -
  have h: "int16 (roll \<lparr>roll = 10, pitch = - 5, yaw = 0, altitude = 20\<rparr>)"
    "int16 (pitch \<lparr>roll = 10, pitch = - 5, yaw = 0, altitude = 20\<rparr>)"
    "int16 (yaw \<lparr>roll = 10, pitch = - 5, yaw = 0, altitude = 20\<rparr>)"
    "int16 (altitude \<lparr>roll = 10, pitch = - 5, yaw = 0, altitude = 20\<rparr>)"
    "int16 (steps fresh_connected FLIGHT_PARAMS_KEY + 1)"
    by (simp_all add: int16_def)
  have g: "getCharacteristic fresh_connected FLIGHT_PARAMS_KEY = Some fa0a"
    by (rule fresh_connected_characteristic)
  from C3_flight_params_frame [OF h g] h g show ?thesis by simp
qed

text \<open>
  The claim as stated reads the four fields as two-byte little-endian values, which with
  seven header bytes and four trailing zero bytes makes 19 bytes:
  \<open>[2, 1, 2, 0, 2, 0, 1, 10, 0, 251, 255, 0, 0, 20, 0, 0, 0, 0, 0]\<close>. That is not the
  buffer built for roll 10, pitch -5, yaw 0, altitude 20 on a fresh counter.
\<close>

theorem C3_counterexample:
  "flightParamsBuffer 1 \<lparr>roll = 10, pitch = - 5, yaw = 0, altitude = 20\<rparr> \<noteq>
     Inr [2, 1, 2, 0, 2, 0, 1, 10, 0, 251, 255, 0, 0, 20, 0, 0, 0, 0, 0]
   \<and> writes (effects_of (writeFlightParams \<lparr>roll = 10, pitch = - 5, yaw = 0, altitude = 20\<rparr>
        fresh_connected)) \<noteq>
       [(fa0a, [2, 1, 2, 0, 2, 0, 1, 10, 0, 251, 255, 0, 0, 20, 0, 0, 0, 0, 0])]"
proof -
  let ?p = "\<lparr>roll = 10, pitch = - 5, yaw = 0, altitude = 20\<rparr>"
  have b: "flightParamsBuffer 1 ?p = Inr [2, 1, 2, 0, 2, 0, 1, 10, 251, 0, 20, 0, 0, 0, 0, 0, 0, 0, 0]"
    by (simp add: flightParamsBuffer_layout int16_def)
  have w: "writes (effects_of (writeFlightParams ?p fresh_connected)) =
             [(fa0a, [2, 1, 2, 0, 2, 0, 1, 10, 251, 0, 20, 0, 0, 0, 0, 0, 0, 0, 0])]"
    using writeFlightParams_attached [of ?p fresh_connected fa0a]
    by (simp add: int16_def fresh_connected_characteristic)
  show ?thesis by (simp add: b w)
qed

section \<open>The limit writers\<close>

lemma limit_call_counters:
  assumes "int16 cls" and "int16 method" and "writes fin = []"
  shows "steps (state_of (limit_call cls method v fin a)) FLIGHT_PARAMS_KEY = steps a FLIGHT_PARAMS_KEY + 1
     \<and> steps (state_of (limit_call cls method v fin a)) COMMAND_KEY =
         (if characteristics a \<noteq> [] \<and> int16 (steps a FLIGHT_PARAMS_KEY + 1) \<and> 255 \<le> steps a COMMAND_KEY
          then 0 else steps a COMMAND_KEY)
     \<and> steps (state_of (limit_call cls method v fin a)) EMERGENCY_KEY = steps a EMERGENCY_KEY
     \<and> list_all (\<lambda>(c, buf). getCharacteristic a COMMAND_KEY = Some c
                    \<and> take 1 (drop 1 buf) = [word_of_int (steps a FLIGHT_PARAMS_KEY + 1)])
          (writes (effects_of (limit_call cls method v fin a)))
     \<and> length (writes (effects_of (limit_call cls method v fin a))) =
         (if int16 (steps a FLIGHT_PARAMS_KEY + 1) \<and> getCharacteristic a COMMAND_KEY \<noteq> None then 1 else 0)"
proof (cases "int16 (steps a FLIGHT_PARAMS_KEY + 1)")
  case False
  then show ?thesis by (simp add: limit_call_def Let_def limitBuffer_throws)
next
  case True
  note s = this
  let ?a1 = "a\<lparr>steps := (steps a)(FLIGHT_PARAMS_KEY := steps a FLIGHT_PARAMS_KEY + 1)\<rparr>"
  show ?thesis
  proof (cases "getCharacteristic a COMMAND_KEY")
    case None
    show ?thesis
    proof (cases "characteristics a = []")
      case True
      with s None assms show ?thesis
        by (simp add: limit_call_def Let_def limitBuffer_layout write'_detached and_then_def done_with_def)
    next
      case False
      with s None assms show ?thesis
        by (simp add: limit_call_def Let_def limitBuffer_layout write'_def and_then_def done_with_def)
    qed
  next
    case (Some c)
    then have g: "getCharacteristic ?a1 COMMAND_KEY = Some c" by simp
    from Some have "characteristics a \<noteq> []" by (rule getCharacteristic_Some_nonempty)
    with s Some assms show ?thesis
      by (simp add: limit_call_def Let_def limitBuffer_layout write'_attached [OF g] and_then_def done_with_def)
  qed
qed

lemma writeMaxAltitude_limit_call:
  "writeMaxAltitude v a = limit_call PILOTING_SETTINGS MAX_ALTITUDE v
      [Emit ''maxAltitudeChange'' (JF32 v), Log Debug ''Setting max altitude to ${altitude}m'' [JF32 v]] a"
  by (simp add: writeMaxAltitude_def limit_call_def)

lemma writeMaxTilt_limit_call:
  "writeMaxTilt v a = limit_call PILOTING_SETTINGS MAX_TILT v
      [Emit ''maxTiltChange'' (JF32 v), Log Debug ''Setting max tilt to ${tilt}% (20 deg max)'' [JF32 v]] a"
  by (simp add: writeMaxTilt_def limit_call_def)

lemma characteristics_writeTrim:
  "characteristics a = [] \<Longrightarrow>
   writeTrim a = (a\<lparr>steps := (steps a)(COMMAND_KEY := steps a COMMAND_KEY + 1)\<rparr>,
     [Log Warn ''You must have bluetooth enabled and be connected to a drone before executing a command.'' [],
      Log Info ''Trim command called'' []], None)"
  by (simp add: writeTrim_def createBuffer_def Let_def write'_detached and_then_def done_with_def)

lemma run_Trim_detached:
  "characteristics a = [] \<Longrightarrow>
   thrown_of (run (replicate n Trim) a) = None
   \<and> steps (state_of (run (replicate n Trim) a)) COMMAND_KEY = steps a COMMAND_KEY + int n
   \<and> steps (state_of (run (replicate n Trim) a)) FLIGHT_PARAMS_KEY = steps a FLIGHT_PARAMS_KEY
   \<and> writes (effects_of (run (replicate n Trim) a)) = []
   \<and> characteristics (state_of (run (replicate n Trim) a)) = []"
proof (induction n arbitrary: a)
  case 0
  then show ?case by simp
next
  case (Suc n)
  let ?a1 = "a\<lparr>steps := (steps a)(COMMAND_KEY := steps a COMMAND_KEY + 1)\<rparr>"
  from Suc.prems have "characteristics ?a1 = []" by simp
  from Suc.IH [OF this] have ih:
    "thrown_of (run (replicate n Trim) ?a1) = None"
    "steps (state_of (run (replicate n Trim) ?a1)) COMMAND_KEY = steps a COMMAND_KEY + 1 + int n"
    "steps (state_of (run (replicate n Trim) ?a1)) FLIGHT_PARAMS_KEY = steps a FLIGHT_PARAMS_KEY"
    "writes (effects_of (run (replicate n Trim) ?a1)) = []"
    "characteristics (state_of (run (replicate n Trim) ?a1)) = []"
    by simp_all
  obtain a2 es2 r2 where r: "run (replicate n Trim) ?a1 = (a2, es2, r2)"
    by (cases "run (replicate n Trim) ?a1")
  with ih Suc.prems show ?case
    by (simp add: characteristics_writeTrim and_then_def)
qed


text \<open>
  C9, as the code has it. \<open>writeMaxAltitude\<close> and \<open>writeMaxTilt\<close> always add one to the
  counter of the flight-params channel and never touch the emergency counter. Every buffer
  they write goes to the characteristic of the command channel and carries the low byte of
  the new flight-params counter as its step; there is one such buffer when that
  characteristic is there and the new counter fits 16 bits, and none otherwise. The
  counter of the command channel is left as it was, except that \<open>write\<close> puts it back to 0
  when characteristics are attached, the buffer could be built, and the counter had
  already reached 255.
\<close>

theorem C9_limit_write_counters:
  assumes "cmd = MaxAltitude v \<or> cmd = MaxTilt v"
  shows "steps (state_of (exec cmd a)) FLIGHT_PARAMS_KEY = steps a FLIGHT_PARAMS_KEY + 1
     \<and> steps (state_of (exec cmd a)) COMMAND_KEY =
         (if characteristics a \<noteq> [] \<and> int16 (steps a FLIGHT_PARAMS_KEY + 1) \<and> 255 \<le> steps a COMMAND_KEY
          then 0 else steps a COMMAND_KEY)
     \<and> steps (state_of (exec cmd a)) EMERGENCY_KEY = steps a EMERGENCY_KEY
     \<and> list_all (\<lambda>(c, buf). getCharacteristic a COMMAND_KEY = Some c
                    \<and> take 1 (drop 1 buf) = [word_of_int (steps a FLIGHT_PARAMS_KEY + 1)])
          (writes (effects_of (exec cmd a)))
     \<and> length (writes (effects_of (exec cmd a))) =
         (if int16 (steps a FLIGHT_PARAMS_KEY + 1) \<and> getCharacteristic a COMMAND_KEY \<noteq> None then 1 else 0)"
  using assms
proof
  assume "cmd = MaxAltitude v"
  then show ?thesis
    using limit_call_counters [of PILOTING_SETTINGS MAX_ALTITUDE]
    by (simp add: writeMaxAltitude_limit_call int16_def md_consts)
next
  assume "cmd = MaxTilt v"
  then show ?thesis
    using limit_call_counters [of PILOTING_SETTINGS MAX_TILT]
    by (simp add: writeMaxTilt_limit_call int16_def md_consts)
qed

theorem C9_limit_write_counters_witness:
  "(MaxAltitude 0x40A00000 = MaxAltitude 0x40A00000 \<or> MaxAltitude 0x40A00000 = MaxTilt 0x40A00000)
   \<and> steps (state_of (exec (MaxAltitude 0x40A00000) fresh_connected)) FLIGHT_PARAMS_KEY = 1
   \<and> steps (state_of (exec (MaxAltitude 0x40A00000) fresh_connected)) COMMAND_KEY = 0
   \<and> steps (state_of (exec (MaxAltitude 0x40A00000) fresh_connected)) EMERGENCY_KEY = 0
   \<and> list_all (\<lambda>(c, buf). getCharacteristic fresh_connected COMMAND_KEY = Some c
                  \<and> take 1 (drop 1 buf) = [1])
        (writes (effects_of (exec (MaxAltitude 0x40A00000) fresh_connected)))
   \<and> length (writes (effects_of (exec (MaxAltitude 0x40A00000) fresh_connected))) = 1"
  using C9_limit_write_counters [of "MaxAltitude 0x40A00000" "0x40A00000" fresh_connected]
  by (simp add: fresh_connected_characteristic int16_def)

text \<open>
  The claim as stated fails where the command counter has reached 255: 255 \<open>writeTrim\<close>
  calls before any characteristic is there leave it at 255, and the first limit write
  after the characteristics are attached puts it back to 0.
\<close>

theorem C9_counterexample:
  "steps (attach [fa0a, fa0b, fa0c, fb0e, fb0f] (state_of (run (replicate 255 Trim) fresh))) COMMAND_KEY = 255
   \<and> steps (state_of (writeMaxAltitude 0x40A00000
         (attach [fa0a, fa0b, fa0c, fb0e, fb0f] (state_of (run (replicate 255 Trim) fresh))))) COMMAND_KEY = 0"
proof -
  let ?a = "attach [fa0a, fa0b, fa0c, fb0e, fb0f] (state_of (run (replicate 255 Trim) fresh))"
  have d: "characteristics fresh = []" by (simp add: fresh_def new_adapter_def)
  from run_Trim_detached [OF d, of 255]
  have c: "steps ?a COMMAND_KEY = 255" and f: "steps ?a FLIGHT_PARAMS_KEY = 0"
    by (simp_all add: attach_def fresh_def new_adapter_def)
  have n: "characteristics ?a \<noteq> []" by (simp add: attach_def)
  from limit_call_counters [of PILOTING_SETTINGS MAX_ALTITUDE
      "[Emit ''maxAltitudeChange'' (JF32 0x40A00000),
        Log Debug ''Setting max altitude to ${altitude}m'' [JF32 0x40A00000]]" "0x40A00000" ?a]
  have "steps (state_of (writeMaxAltitude 0x40A00000 ?a)) COMMAND_KEY = 0"
    by (simp add: writeMaxAltitude_limit_call int16_def md_consts c f n)
  with c show ?thesis by simp
qed

section \<open>Counters past 255\<close>

lemma run_MaxAltitude_attached:
  "getCharacteristic a COMMAND_KEY = Some c \<Longrightarrow> - 32769 \<le> steps a FLIGHT_PARAMS_KEY \<Longrightarrow>
   steps a FLIGHT_PARAMS_KEY + int n \<le> 32767 \<Longrightarrow>
   thrown_of (run (replicate n (MaxAltitude v)) a) = None
   \<and> steps (state_of (run (replicate n (MaxAltitude v)) a)) FLIGHT_PARAMS_KEY = steps a FLIGHT_PARAMS_KEY + int n"
proof (induction n arbitrary: a)
  case 0
  then show ?case by simp
next
  case (Suc n)
  let ?fin = "[Emit ''maxAltitudeChange'' (JF32 v), Log Debug ''Setting max altitude to ${altitude}m'' [JF32 v]]"
  let ?a1 = "a\<lparr>steps := (steps a)(FLIGHT_PARAMS_KEY := steps a FLIGHT_PARAMS_KEY + 1)\<rparr>"
  let ?a2 = "if 255 \<le> steps ?a1 COMMAND_KEY then ?a1\<lparr>steps := (steps ?a1)(COMMAND_KEY := 0)\<rparr> else ?a1"
  from Suc.prems(2,3) have s: "int16 (steps a FLIGHT_PARAMS_KEY + 1)" by (simp add: int16_def)
  from Suc.prems(1) have g: "getCharacteristic ?a1 COMMAND_KEY = Some c" by simp
  obtain buf where w: "writeMaxAltitude v a = (?a2, Write c buf # ?fin, None)"
    using s by (simp add: writeMaxAltitude_def Let_def limitBuffer_layout int16_def md_consts
        write'_attached [OF g] and_then_def done_with_def)
  have g2: "getCharacteristic ?a2 COMMAND_KEY = Some c" using Suc.prems(1) by simp
  have f2: "steps ?a2 FLIGHT_PARAMS_KEY = steps a FLIGHT_PARAMS_KEY + 1" by simp
  from Suc.prems(2,3) f2 have b: "- 32769 \<le> steps ?a2 FLIGHT_PARAMS_KEY"
    "steps ?a2 FLIGHT_PARAMS_KEY + int n \<le> 32767" by simp_all
  from Suc.IH [OF g2 b] have ih:
    "thrown_of (run (replicate n (MaxAltitude v)) ?a2) = None"
    "steps (state_of (run (replicate n (MaxAltitude v)) ?a2)) FLIGHT_PARAMS_KEY = steps a FLIGHT_PARAMS_KEY + 1 + int n"
    by (simp_all only: f2)
  obtain a3 es3 r3 where r: "run (replicate n (MaxAltitude v)) ?a2 = (a3, es3, r3)"
    by (cases "run (replicate n (MaxAltitude v)) ?a2")
  with ih show ?case
    by (simp add: w and_then_def)
qed

text \<open>
  C7 at its failing inputs. With no characteristic attached \<open>write\<close> returns before its
  reset, so 256 \<open>writeTrim\<close> calls on a new adapter leave the command counter at 256 and
  write nothing. With the characteristics attached, 256 \<open>writeMaxAltitude\<close> calls leave
  the flight-params counter at 256, since the reset in \<open>write\<close> is that of the command
  channel. And \<open>writeTrim\<close> followed by \<open>writeMaxAltitude\<close> writes two consecutive
  frames to the command characteristic that both carry step 1.
\<close>

theorem C7_counters_pass_255:
  "steps (state_of (run (replicate 256 Trim) fresh)) COMMAND_KEY = 256
   \<and> writes (effects_of (run (replicate 256 Trim) fresh)) = []
   \<and> steps (state_of (run (replicate 256 (MaxAltitude 0x40A00000)) fresh_connected)) FLIGHT_PARAMS_KEY = 256
   \<and> sent_steps fa0b (effects_of (run [Trim, MaxAltitude 0x40A00000] fresh_connected)) = [1, 1]"
proof -
  have d: "characteristics fresh = []" by (simp add: fresh_def new_adapter_def)
  from run_Trim_detached [OF d, of 256]
  have t: "steps (state_of (run (replicate 256 Trim) fresh)) COMMAND_KEY = 256"
    "writes (effects_of (run (replicate 256 Trim) fresh)) = []"
    by (simp_all add: fresh_def new_adapter_def)
  from run_MaxAltitude_attached [OF fresh_connected_characteristic(2), of 256 "0x40A00000"]
  have m: "steps (state_of (run (replicate 256 (MaxAltitude 0x40A00000)) fresh_connected)) FLIGHT_PARAMS_KEY = 256"
    by simp
  have g: "getCharacteristic (fresh_connected\<lparr>steps := f\<rparr>) COMMAND_KEY = Some fa0b" for f
    by (simp add: fresh_connected_characteristic)
  have "sent_steps fa0b (effects_of (run [Trim, MaxAltitude 0x40A00000] fresh_connected)) = [1, 1]"
    by (simp add: writeTrim_def createBuffer_def writeMaxAltitude_def Let_def limitBuffer_layout
        int16_def md_consts write'_attached [OF g] and_then_def done_with_def)
  with t m show ?thesis by simp
qed

section \<open>Animations\<close>

lemma writeAnimation_unknown:
  "animations n = JUndefined \<Longrightarrow> writeAnimation n a = (a, [], None)"
  by (simp add: writeAnimation_def)

text \<open>
  C10 at its failing input. \<open>toString\<close> is none of the four animation names, yet
  \<open>animations['toString']\<close> is the function every object inherits, not \<open>undefined\<close>:
  \<open>writeAnimation('toString')\<close> goes past the guard, increments the command counter from
  0 to 1 and writes a frame whose animation byte is 0, the byte of \<open>flipFront\<close>.
\<close>

theorem C10_inherited_name_is_sent:
  "''toString'' \<notin> {''flipFront'', ''flipBack'', ''flipRight'', ''flipLeft''}
   \<and> animations ''toString'' = JFun
   \<and> writes (effects_of (writeAnimation ''toString'' fresh_connected)) =
       [(fa0b, [2, 1, 2, 4, 0, 0, 0, 0, 0, 0])]
   \<and> steps fresh_connected COMMAND_KEY = 0
   \<and> steps (state_of (writeAnimation ''toString'' fresh_connected)) COMMAND_KEY = 1"
proof -
  have g: "getCharacteristic (fresh_connected\<lparr>steps := f\<rparr>) COMMAND_KEY = Some fa0b" for f
    by (simp add: fresh_connected_characteristic)
  have a: "animations ''toString'' = JFun"
    by (simp add: animations_def object_prototype_names_def)
  show ?thesis
    by (simp add: a writeAnimation_def createBuffer_def Let_def write'_attached [OF g] and_then_def
        done_with_def md_consts)
qed

section \<open>The flight loop\<close>

text \<open>
  C2 at every input. The guard of \<open>eventLoop\<close> reads \<open>network.flightStatusChange\<close>; the
  adapter has a field \<open>flightStatus\<close> and emits an event named \<open>flightStatusChange\<close>, but
  has no property of that name, so the guard always returns: a tick writes nothing, emits
  nothing and leaves the drone as it was, also when an adapter with characteristics is
  there and a flight status has been received.
\<close>

theorem C2_flight_loop_never_writes:
  "eventLoop d = (d, [], None)"
  by (simp add: eventLoop_def adapter_property_def event_emitter_names_def adapter_methods_def
      object_prototype_names_def split: option.splits)

section \<open>The peripheral filter\<close>

text \<open>\<open>indexOf\<close> finds a string exactly when it occurs somewhere, not only at the start.\<close>

lemma indexOf_from_found:
  "0 \<le> indexOf_from s p i \<longleftrightarrow> (\<exists>pre post. s = pre @ p @ post)"
proof (induction s arbitrary: i)
  case Nil
  then show ?case by simp
next
  case (Cons c cs)
  show ?case
  proof (cases "take (length p) (c # cs) = p")
    case True
    then have "c # cs = [] @ p @ drop (length p) (c # cs)"
      by (metis append_Nil append_take_drop_id)
    then have "\<exists>pre post. c # cs = pre @ p @ post" by blast
    with True show ?thesis by simp
  next
    case False
    have "(\<exists>pre post. c # cs = pre @ p @ post) \<longleftrightarrow> (\<exists>pre post. cs = pre @ p @ post)"
    proof
      assume "\<exists>pre post. c # cs = pre @ p @ post"
      then obtain pre post where e: "c # cs = pre @ p @ post" by blast
      show "\<exists>pre post. cs = pre @ p @ post"
      proof (cases pre)
        case Nil
        with e have "take (length p) (c # cs) = p" by simp
        with False show ?thesis by contradiction
      next
        case (Cons x pre')
        with e show ?thesis by auto
      qed
    next
      assume "\<exists>pre post. cs = pre @ p @ post"
      then obtain pre post where "cs = pre @ p @ post" by blast
      then have "c # cs = (c # pre) @ p @ post" by simp
      then show "\<exists>pre post. c # cs = pre @ p @ post" by blast
    qed
    with False Cons.IH [of "Suc i"] show ?thesis by simp
  qed
qed

lemma array_indexOf_from_found:
  "0 \<le> array_indexOf_from xs v i \<longleftrightarrow> list_ex (\<lambda>x. v = JStr x) xs"
  by (induction xs arbitrary: i) simp_all

text \<open>
  What the filter accepts when the pattern is empty: a name that contains one of the seven
  prefixes anywhere, or manufacturer data that is a string of the serial list. Manufacturer
  data that is a \<open>Buffer\<close> is never accepted on its own.
\<close>

lemma validatePeripheral_empty_filter:
  assumes "droneFilter a = []"
  shows "\<exists>v. validatePeripheral rx a (Some adv) = Inr v
     \<and> (truthy v \<longleftrightarrow>
          (case localName adv of
             None \<Rightarrow> False
           | Some n \<Rightarrow> list_ex (\<lambda>prefix. \<exists>pre post. n = pre @ prefix @ post) DRONE_PREFIXES)
          \<or> list_ex (\<lambda>s. manufacturerData adv = JStr s) MANUFACTURER_SERIALS)"
proof -
  have m: "truthy (js_and (manufacturerData adv)
             (JBool (0 \<le> array_indexOf MANUFACTURER_SERIALS (manufacturerData adv))))
           \<longleftrightarrow> list_ex (\<lambda>s. manufacturerData adv = JStr s) MANUFACTURER_SERIALS"
    by (auto simp: js_and_def array_indexOf_def array_indexOf_from_found MANUFACTURER_SERIALS_def)
  have n: "truthy (js_and (JStr n) (JBool (list_ex (\<lambda>prefix. 0 \<le> indexOf n prefix) DRONE_PREFIXES)))
           \<longleftrightarrow> list_ex (\<lambda>prefix. \<exists>pre post. n = pre @ prefix @ post) DRONE_PREFIXES" for n
    by (auto simp: js_and_def indexOf_def indexOf_from_found DRONE_PREFIXES_def)
  show ?thesis
    using assms m n
    by (simp add: validatePeripheral_def newRegExp_def bindE_def js_or_def Let_def split: option.splits)
qed

text \<open>The two examples of the specification, on the empty pattern.\<close>

lemma validatePeripheral_examples:
  "validatePeripheral rx fresh (Some \<lparr>localName = Some ''Mambo_12AB'', manufacturerData = JUndefined\<rparr>)
     = Inr (JBool True)"
  "validatePeripheral rx fresh (Some \<lparr>localName = Some ''SomeRandomBLE'', manufacturerData = JUndefined\<rparr>)
     = Inr JUndefined"
  by (simp_all add: validatePeripheral_def newRegExp_def fresh_def new_adapter_def bindE_def js_and_def
      js_or_def DRONE_PREFIXES_def MANUFACTURER_SERIALS_def indexOf_def array_indexOf_def)

text \<open>
  C4 at its failing inputs, the filter being empty. The name \<open>My_RS_1\<close> starts with none
  of the seven prefixes, and comes with no manufacturer data, yet it is accepted:
  \<open>indexOf(prefix) >= 0\<close> finds \<open>RS_\<close> inside it. And a peripheral with no name whose
  manufacturer data is the \<open>Buffer\<close> of the bytes 43 00 cf 19 00 09 01 00, the first
  serial of the list, is rejected: \<open>indexOf\<close> compares the \<open>Buffer\<close> with the strings of
  the list by \<open>===\<close>.
\<close>

theorem C4_name_containing_a_prefix_matches:
  "\<not> list_ex (\<lambda>prefix. take (length prefix) ''My_RS_1'' = prefix) DRONE_PREFIXES
   \<and> validatePeripheral rx fresh (Some \<lparr>localName = Some ''My_RS_1'', manufacturerData = JUndefined\<rparr>)
       = Inr (JBool True)
   \<and> validatePeripheral rx fresh
        (Some \<lparr>localName = None, manufacturerData = JBuffer [0x43, 0x00, 0xcf, 0x19, 0x00, 0x09, 0x01, 0x00]\<rparr>)
       = Inr (JBool False)"
  by (simp add: validatePeripheral_def newRegExp_def fresh_def new_adapter_def bindE_def js_and_def
      js_or_def DRONE_PREFIXES_def MANUFACTURER_SERIALS_def indexOf_def array_indexOf_def)


end
